theory Spec2Isabelle
  imports Complex_Main "HOL-Library.Word"
begin

section \<open>Data model\<close>

text \<open>
  The development follows the class \<open>OssService\<close> of the uploader plugin (the revision
  with \<open>uploadWithCompression\<close> and \<open>checkFileExists\<close>).

  JavaScript strings are modelled as \<open>string\<close>, holding the UTF-8 bytes of the text.
  Every character the code searches for or splits at (\<open>.\<close>, \<open>404\<close>, the image
  suffixes) is ASCII, and an ASCII byte never occurs inside a multi-byte UTF-8 sequence, so
  splitting and searching on bytes agree with splitting and searching on code units.
  An \<open>ArrayBuffer\<close> is a list of 8-bit words. A JavaScript \<open>number\<close> that the code only
  stores and passes on (the compression limits) is a \<open>rat\<close>; a number that is a status code,
  a retry counter or a time in milliseconds is a \<open>nat\<close>.
\<close>

type_synonym bytes = "8 word list"

record AliyunOssSettings =
  accessKeyId :: string
  accessKeySecret :: string
  bucket :: string
  region :: string
  customDomain :: string
  path :: string
  enableCompression :: bool
  maxSizeMB :: rat
  maxWidthOrHeight :: rat
  interceptPasteAndDrop :: bool

definition DEFAULT_SETTINGS :: AliyunOssSettings where
  "DEFAULT_SETTINGS =
     \<lparr>accessKeyId = '''', accessKeySecret = '''', bucket = '''', region = '''',
      customDomain = '''', path = ''obsidian/'', enableCompression = True,
      maxSizeMB = 3 / 10, maxWidthOrHeight = 1280, interceptPasteAndDrop = True\<rparr>"

text \<open>
  A thrown value. \<open>Error m\<close> is an instance of the JavaScript class \<open>Error\<close> with message
  \<open>m\<close>; \<open>NonError\<close> is any other rejected value (the test \<open>error instanceof Error\<close> fails
  on it).
\<close>

datatype thrown = Error string | NonError string

text \<open>The parameter object of \<open>requestUrl\<close>; \<open>body\<close> is absent on the probe.\<close>

record RequestUrlParam =
  url :: string
  http_method :: string
  headers :: "(string \<times> string) list"
  body :: "bytes option"

text \<open>
  What awaiting \<open>requestUrl\<close> gives: a response, of which the code reads only \<open>status\<close>,
  or a rejection.
\<close>

datatype request_outcome = Resolved nat | Rejected thrown

text \<open>The options object handed to the image compressor.\<close>

typedecl progress_callback

record compression_options =
  opt_maxSizeMB :: rat
  opt_maxWidthOrHeight :: rat
  useWebWorker :: bool
  opt_onProgress :: "progress_callback option"

text \<open>The optional second argument of \<open>uploadWithCompression\<close>; both members are optional.\<close>

record upload_options =
  onProgress :: "progress_callback option"
  skipExistCheck :: "bool option"

text \<open>
  Everything the service does to the outside is recorded, in order: a network request, a
  timer of so many milliseconds, a call of the image compressor (with the bytes, the file
  name, the MIME type and the options it was given).
\<close>

datatype event =
    Request RequestUrlParam
  | Timer nat
  | Compression bytes string string compression_options

record world =
  now :: nat
  trace :: "event list"

text \<open>
  The names of the hash functions the code passes to the Web Crypto interface, and the
  width of their digests.
\<close>

datatype hash_name = SHA_1 | SHA_256

fun digest_bits :: "hash_name \<Rightarrow> nat" where
  "digest_bits SHA_1 = 160"
| "digest_bits SHA_256 = 256"

text \<open>
  The collaborators that are not part of the repository are parameters: the digest and the
  HMAC of the Web Crypto interface (\<open>subtle_sign h key data\<close> is the HMAC of \<open>data\<close> under
  \<open>key\<close> with hash \<open>h\<close>), the exception with which that interface refuses to import a key
  (its message is the browser's), the image compressor, and the remote side of
  \<open>requestUrl\<close>, which may answer by everything that has happened so far.
\<close>

record platform =
  subtle_digest :: "hash_name \<Rightarrow> bytes \<Rightarrow> bytes"
  subtle_sign :: "hash_name \<Rightarrow> bytes \<Rightarrow> bytes \<Rightarrow> bytes"
  importKey_rejection :: thrown
  imageCompression :: "bytes \<Rightarrow> string \<Rightarrow> string \<Rightarrow> compression_options \<Rightarrow> thrown + bytes"
  respond :: "world \<Rightarrow> RequestUrlParam \<Rightarrow> request_outcome"

section \<open>Strings, numbers and dates of the host language\<close>

definition nl :: string where
  "nl = [CHR 0x0A]"

text \<open>\<open>s.split(c)\<close> for a separator of one character; the result is never empty.\<close>

fun split_str :: "char \<Rightarrow> string \<Rightarrow> string list" where
  "split_str c [] = [[]]"
| "split_str c (x # xs) =
     (if x = c then [] # split_str c xs
      else (case split_str c xs of [] \<Rightarrow> [[x]] | y # ys \<Rightarrow> (x # y) # ys))"

text \<open>\<open>a.pop()\<close>: the last element, \<open>undefined\<close> on the empty array.\<close>

definition pop :: "'a list \<Rightarrow> 'a option" where
  "pop xs = (if xs = [] then None else Some (last xs))"

text \<open>\<open>s.includes(t)\<close>.\<close>

fun is_prefix :: "string \<Rightarrow> string \<Rightarrow> bool" where
  "is_prefix [] ys = True"
| "is_prefix (x # xs) [] = False"
| "is_prefix (x # xs) (y # ys) = (x = y \<and> is_prefix xs ys)"

fun includes_str :: "string \<Rightarrow> string \<Rightarrow> bool" where
  "includes_str [] t = (t = [])"
| "includes_str (x # xs) t = (is_prefix t (x # xs) \<or> includes_str xs t)"

text \<open>Lower case of an ASCII letter; every other byte is kept.\<close>

definition lower_char :: "char \<Rightarrow> char" where
  "lower_char c =
     (let n = (of_char c :: nat)
      in if 65 \<le> n \<and> n \<le> 90 then char_of (n + 32) else c)"

definition toLowerCase :: "string \<Rightarrow> string" where
  "toLowerCase s = map lower_char s"

text \<open>
  The \<open>type\<close> of a \<open>Blob\<close> or \<open>File\<close> made with \<open>{ type: t }\<close>: the empty string when
  \<open>t\<close> has a character outside the range U+0020 to U+007E (every byte of a character
  that is not ASCII is above that range), and \<open>t\<close> in ASCII lower case otherwise.
\<close>

definition blob_type :: "string \<Rightarrow> string" where
  "blob_type t =
     (if \<forall>c \<in> set t. 32 \<le> (of_char c :: nat) \<and> (of_char c :: nat) \<le> 126 then map lower_char t
      else [])"

text \<open>The digits of \<open>n.toString(16)\<close> and of \<open>n.toString()\<close>.\<close>

definition hexdigit :: "nat \<Rightarrow> char" where
  "hexdigit n = ''0123456789abcdef'' ! (n mod 16)"

definition digit :: "nat \<Rightarrow> char" where
  "digit n = ''0123456789'' ! (n mod 10)"

fun show_nat :: "nat \<Rightarrow> string" where
  "show_nat n = (if n < 10 then [digit n] else show_nat (n div 10) @ [digit n])"

declare show_nat.simps [simp del]

text \<open>\<open>b.toString(16).padStart(2, '0')\<close> for a byte \<open>b\<close>.\<close>

definition hex2 :: "8 word \<Rightarrow> string" where
  "hex2 b = [hexdigit (unat b div 16), hexdigit (unat b)]"

text \<open>\<open>new TextEncoder().encode(s)\<close>: the UTF-8 bytes of \<open>s\<close>.\<close>

definition encode :: "string \<Rightarrow> bytes" where
  "encode s = map (\<lambda>c. of_nat (of_char c)) s"

text \<open>
  \<open>btoa(String.fromCharCode(...bs))\<close>: \<open>fromCharCode\<close> gives one code unit per byte and
  \<open>btoa\<close> reads each back as that byte, so the composition is the base-64 encoding of the
  bytes, with padding.
\<close>

definition b64char :: "nat \<Rightarrow> char" where
  "b64char n =
     ''ABCDEFGHIJKLMNOPQRSTUVWXYZabcdefghijklmnopqrstuvwxyz0123456789+/'' ! (n mod 64)"

fun btoa :: "bytes \<Rightarrow> string" where
  "btoa [] = []"
| "btoa [a] =
     [b64char (unat a div 4), b64char (unat a mod 4 * 16), CHR ''='', CHR ''='']"
| "btoa [a, b] =
     [b64char (unat a div 4), b64char (unat a mod 4 * 16 + unat b div 16),
      b64char (unat b mod 16 * 4), CHR ''='']"
| "btoa (a # b # c # rest) =
     [b64char (unat a div 4), b64char (unat a mod 4 * 16 + unat b div 16),
      b64char (unat b mod 16 * 4 + unat c div 64), b64char (unat c)] @ btoa rest"

text \<open>
  \<open>new Date(ms).toUTCString()\<close> for a time in milliseconds since the epoch: the form
  \<open>Tue, 01 Jan 2019 00:00:00 GMT\<close>. The calendar date is computed from the day number
  by the usual era arithmetic of the proleptic Gregorian calendar.
\<close>

definition pad2 :: "nat \<Rightarrow> string" where
  "pad2 n = [digit (n div 10), digit n]"

definition pad4 :: "nat \<Rightarrow> string" where
  "pad4 n = (if n < 10000 then [digit (n div 1000), digit (n div 100), digit (n div 10), digit n]
             else show_nat n)"

definition day_name :: "nat \<Rightarrow> string" where
  "day_name d = [''Sun'', ''Mon'', ''Tue'', ''Wed'', ''Thu'', ''Fri'', ''Sat''] ! (d mod 7)"

definition month_name :: "nat \<Rightarrow> string" where
  "month_name m =
     [''Jan'', ''Feb'', ''Mar'', ''Apr'', ''May'', ''Jun'',
      ''Jul'', ''Aug'', ''Sep'', ''Oct'', ''Nov'', ''Dec''] ! ((m - 1) mod 12)"

text \<open>
  Year, month (1 to 12) and day of the month of a day number counted from 1970-01-01.
  \<open>doe\<close> is the day within the 400-year era, \<open>yoe\<close> the year within it, \<open>doy\<close> the day
  of the year counted from the first of March, \<open>mp\<close> the month counted from March.
\<close>

definition yoe_of :: "nat \<Rightarrow> nat" where
  "yoe_of doe = (doe + doe div 36524 - doe div 1460 - doe div 146096) div 365"

definition doy_of :: "nat \<Rightarrow> nat" where
  "doy_of doe = doe + yoe_of doe div 100 - 365 * yoe_of doe - yoe_of doe div 4"

definition mp_of :: "nat \<Rightarrow> nat" where
  "mp_of doe = (5 * doy_of doe + 2) div 153"

definition month_of :: "nat \<Rightarrow> nat" where
  "month_of days =
     (if mp_of ((days + 719468) mod 146097) < 10 then mp_of ((days + 719468) mod 146097) + 3
      else mp_of ((days + 719468) mod 146097) - 9)"

definition day_of :: "nat \<Rightarrow> nat" where
  "day_of days =
     doy_of ((days + 719468) mod 146097) + 1
       - (153 * mp_of ((days + 719468) mod 146097) + 2) div 5"

definition year_of :: "nat \<Rightarrow> nat" where
  "year_of days =
     yoe_of ((days + 719468) mod 146097) + (days + 719468) div 146097 * 400
       + (if month_of days \<le> 2 then 1 else 0)"

definition utc_string :: "nat \<Rightarrow> nat \<Rightarrow> string" where
  "utc_string days tod =
     day_name (days + 4) @ '', '' @ pad2 (day_of days) @ '' '' @ month_name (month_of days)
       @ '' '' @ pad4 (year_of days) @ '' ''
       @ pad2 (tod div 3600) @ '':'' @ pad2 (tod mod 3600 div 60) @ '':'' @ pad2 (tod mod 60)
       @ '' GMT''"

definition toUTCString :: "nat \<Rightarrow> string" where
  "toUTCString ms = utc_string (ms div 1000 div 86400) (ms div 1000 mod 86400)"

section \<open>Effects\<close>

text \<open>
  The clock of the world is moved by timers only: a request and a call of the compressor
  are taken to be answered at once. A real run can only be slower.
\<close>

text \<open>\<open>await requestUrl(req)\<close>: the request is recorded and the remote side answers.\<close>

definition requestUrl :: "platform \<Rightarrow> RequestUrlParam \<Rightarrow> world \<Rightarrow> request_outcome \<times> world" where
  "requestUrl plat req w = (respond plat w req, w\<lparr>trace := trace w @ [Request req]\<rparr>)"

text \<open>
  \<open>await new Promise(resolve => setTimeout(resolve, delay))\<close>: the timer is recorded and the
  clock moves on by the delay.
\<close>

definition setTimeout :: "nat \<Rightarrow> world \<Rightarrow> world" where
  "setTimeout delay w = w\<lparr>now := now w + delay, trace := trace w @ [Timer delay]\<rparr>"

section \<open>The service\<close>

definition maxRetries :: nat where
  "maxRetries = 3"

text \<open>The two Chinese phrases of the error messages, as their UTF-8 bytes.\<close>

definition msg_missing :: string where
  "msg_missing = [CHR 0xE7, CHR 0xBC, CHR 0xBA, CHR 0xE5, CHR 0xB0, CHR 0x91]"

definition msg_upload_failed :: string where
  "msg_upload_failed =
     [CHR 0xE4, CHR 0xB8, CHR 0x8A, CHR 0xE4, CHR 0xBC, CHR 0xA0,
      CHR 0xE5, CHR 0xA4, CHR 0xB1, CHR 0xE8, CHR 0xB4, CHR 0xA5]"

text \<open>\<open>validateSettings\<close>: a string is falsy exactly when it is empty.\<close>

definition validateSettings :: "AliyunOssSettings \<Rightarrow> thrown + unit" where
  "validateSettings s =
     (if accessKeyId s = [] then Inl (Error (msg_missing @ '' Access Key ID''))
      else if accessKeySecret s = [] then Inl (Error (msg_missing @ '' Access Key Secret''))
      else if bucket s = [] then Inl (Error (msg_missing @ '' Bucket''))
      else if region s = [] then Inl (Error (msg_missing @ '' Region''))
      else Inr ())"

text \<open>
  \<open>retryOperation\<close>: the operation is any action on the world that returns or throws.
  The recursion of the source is kept; it ends because the counter grows up to the bound.
\<close>

function retryOperation ::
  "(world \<Rightarrow> (thrown + 'a) \<times> world) \<Rightarrow> nat \<Rightarrow> world \<Rightarrow> (thrown + 'a) \<times> world" where
  "retryOperation operation retryCount w =
     (case operation w of
        (Inr v, w') \<Rightarrow> (Inr v, w')
      | (Inl error, w') \<Rightarrow>
          if retryCount < maxRetries then
            (let delay = 2 ^ retryCount * 1000
             in retryOperation operation (retryCount + 1) (setTimeout delay w'))
          else (Inl error, w'))"
  by pat_completeness auto
termination
  by (relation "measure (\<lambda>(operation, retryCount, w). maxRetries - retryCount)") auto

declare retryOperation.simps [simp del]

text \<open>
  \<open>crypto.subtle.importKey('raw', keyData, { name: 'HMAC', hash: 'SHA-1' }, false, ['sign'])\<close>:
  the Web Crypto interface refuses key data of length zero (a \<open>DataError\<close>); any other key
  data is imported as it is.
\<close>

definition importKey :: "platform \<Rightarrow> bytes \<Rightarrow> thrown + bytes" where
  "importKey plat keyData = (if keyData = [] then Inl (importKey_rejection plat) else Inr keyData)"

text \<open>
  \<open>calculateSignature\<close>: HMAC with SHA-1 under the secret, in base 64. It throws when the
  key cannot be imported, which is when the secret is empty.
\<close>

definition calculateSignature :: "platform \<Rightarrow> string \<Rightarrow> string \<Rightarrow> thrown + string" where
  "calculateSignature plat stringToSign secret =
     (case importKey plat (encode secret) of
        Inl err \<Rightarrow> Inl err
      | Inr key \<Rightarrow> Inr (btoa (subtle_sign plat SHA_1 key (encode stringToSign))))"

text \<open>
  \<open>generateSignature\<close> reads the clock; it returns the pair (authorization, endpoint), or
  throws what \<open>calculateSignature\<close> threw.
\<close>

definition generateSignature ::
  "platform \<Rightarrow> AliyunOssSettings \<Rightarrow> string \<Rightarrow> string \<Rightarrow> world \<Rightarrow> thrown + string \<times> string" where
  "generateSignature plat s ossPath contentType w =
     (let date = toUTCString (now w);
          ossResource = ''/'' @ bucket s @ ''/'' @ ossPath;
          stringToSign = ''PUT'' @ nl @ nl @ contentType @ nl @ date @ nl @ ossResource
      in case calculateSignature plat stringToSign (accessKeySecret s) of
           Inl err \<Rightarrow> Inl err
         | Inr signature \<Rightarrow>
             (let authorization = ''OSS '' @ accessKeyId s @ '':'' @ signature;
                  endpoint = ''https://'' @ bucket s @ ''.'' @ region s @ ''.aliyuncs.com/'' @ ossPath
              in Inr (authorization, endpoint)))"

text \<open>\<open>calculateHash\<close>: SHA-256 of the data, each byte as two hexadecimal digits.\<close>

definition calculateHash :: "platform \<Rightarrow> bytes \<Rightarrow> string" where
  "calculateHash plat data = concat (map hex2 (subtle_digest plat SHA_256 data))"

text \<open>
  The \<open>catch\<close> clause of \<open>checkFileExists\<close>: an \<open>Error\<close> whose message contains \<open>404\<close>
  becomes the result \<open>false\<close>; everything else is thrown again.
\<close>

definition probe_catch :: "thrown \<Rightarrow> thrown + bool" where
  "probe_catch error =
     (case error of
        Error message \<Rightarrow> if includes_str message ''404'' then Inr False else Inl error
      | NonError v \<Rightarrow> Inl error)"

text \<open>
  \<open>checkFileExists\<close>: the body of the \<open>try\<close> signs the probe, sends it and returns
  whether the status is 200. Both the signing and the request may throw into the \<open>catch\<close>;
  when the signing throws, no request has been sent.
\<close>

definition checkFileExists ::
  "platform \<Rightarrow> AliyunOssSettings \<Rightarrow> string \<Rightarrow> world \<Rightarrow> (thrown + bool) \<times> world" where
  "checkFileExists plat s ossPath w =
     (let endpoint = ''https://'' @ bucket s @ ''.'' @ region s @ ''.aliyuncs.com/'' @ ossPath;
          date = toUTCString (now w);
          stringToSign = ''HEAD'' @ nl @ nl @ nl @ date @ nl @ ''/'' @ bucket s @ ''/'' @ ossPath
      in case calculateSignature plat stringToSign (accessKeySecret s) of
           Inl error \<Rightarrow> (probe_catch error, w)
         | Inr signature \<Rightarrow>
             (let authorization = ''OSS '' @ accessKeyId s @ '':'' @ signature
              in case requestUrl plat
                        \<lparr>url = endpoint, http_method = ''HEAD'',
                         headers = [(''Authorization'', authorization), (''Date'', date)],
                         body = None\<rparr> w of
                   (Resolved status, w') \<Rightarrow> (Inr (status = 200), w')
                 | (Rejected error, w') \<Rightarrow> (probe_catch error, w')))"

text \<open>The pieces of \<open>uploadWithCompression\<close>, in the order of the source.\<close>

text \<open>\<open>fileName.split('.').pop() || ''\<close>\<close>

definition fileExt_of :: "string \<Rightarrow> string" where
  "fileExt_of fileName =
     (case pop (split_str CHR ''.'' fileName) of None \<Rightarrow> [] | Some e \<Rightarrow> if e = [] then [] else e)"

text \<open>\<open>`${this.settings.path}${originalHash}.${fileExt}`\<close>, the hash being that of the bytes given.\<close>

definition ossPath_of :: "platform \<Rightarrow> AliyunOssSettings \<Rightarrow> bytes \<Rightarrow> string \<Rightarrow> string" where
  "ossPath_of plat s fileContent fileName =
     (let fileExt = fileExt_of fileName;
          originalHash = calculateHash plat fileContent
      in path s @ originalHash @ ''.'' @ fileExt)"

text \<open>\<open>this.settings.customDomain || `https://${bucket}.${region}.aliyuncs.com`\<close>\<close>

definition baseUrl_of :: "AliyunOssSettings \<Rightarrow> string" where
  "baseUrl_of s =
     (if customDomain s \<noteq> [] then customDomain s
      else ''https://'' @ bucket s @ ''.'' @ region s @ ''.aliyuncs.com'')"

text \<open>\<open>/^(png|jpe?g|gif|webp|bmp)$/i.test(fileExt)\<close>\<close>

definition is_image_ext :: "string \<Rightarrow> bool" where
  "is_image_ext fileExt =
     (toLowerCase fileExt \<in> set [''png'', ''jpg'', ''jpeg'', ''gif'', ''webp'', ''bmp''])"

text \<open>\<open>!options?.skipExistCheck\<close>\<close>

definition exist_check_wanted :: "upload_options option \<Rightarrow> bool" where
  "exist_check_wanted options =
     (case options of None \<Rightarrow> True
      | Some opts \<Rightarrow> (case skipExistCheck opts of None \<Rightarrow> True | Some b \<Rightarrow> \<not> b))"

text \<open>
  The compression step: the compressor is called, and recorded, only under the guard. The
  file it is given has the bytes and the name of the upload; its type is what \<open>new File\<close>
  makes of \<open>`image/${fileExt}`\<close>.
\<close>

definition compress_step ::
  "platform \<Rightarrow> AliyunOssSettings \<Rightarrow> bytes \<Rightarrow> string \<Rightarrow> upload_options option \<Rightarrow> world
     \<Rightarrow> (thrown + bytes) \<times> world" where
  "compress_step plat s fileContent fileName options w =
     (let fileExt = fileExt_of fileName
      in if enableCompression s \<and> is_image_ext fileExt then
           (let compressionOptions =
                  \<lparr>opt_maxSizeMB = maxSizeMB s, opt_maxWidthOrHeight = maxWidthOrHeight s,
                   useWebWorker = True,
                   opt_onProgress = (case options of None \<Rightarrow> None | Some opts \<Rightarrow> onProgress opts)\<rparr>
            in (imageCompression plat fileContent fileName (blob_type (''image/'' @ fileExt))
                  compressionOptions,
                w\<lparr>trace := trace w @
                   [Compression fileContent fileName (blob_type (''image/'' @ fileExt))
                      compressionOptions]\<rparr>))
         else (Inr fileContent, w))"

text \<open>
  The operation handed to \<open>retryOperation\<close>: one PUT. The authorization and the endpoint
  are those computed before; the \<open>Date\<close> header is read from the clock in each call.
\<close>

definition put_operation ::
  "platform \<Rightarrow> string \<Rightarrow> string \<Rightarrow> string \<Rightarrow> bytes \<Rightarrow> world \<Rightarrow> (thrown + unit) \<times> world" where
  "put_operation plat endpoint authorization contentType finalContent w =
     (case requestUrl plat
             \<lparr>url = endpoint, http_method = ''PUT'',
              headers = [(''Authorization'', authorization), (''Date'', toUTCString (now w)),
                         (''Content-Type'', contentType)],
              body = Some finalContent\<rparr> w of
        (Rejected err, w') \<Rightarrow> (Inl err, w')
      | (Resolved status, w') \<Rightarrow>
          if status \<noteq> 200 then (Inl (Error (msg_upload_failed @ '': HTTP '' @ show_nat status)), w')
          else (Inr (), w'))"

definition uploadWithCompression ::
  "platform \<Rightarrow> AliyunOssSettings \<Rightarrow> bytes \<Rightarrow> string \<Rightarrow> upload_options option \<Rightarrow> world
     \<Rightarrow> (thrown + string) \<times> world" where
  "uploadWithCompression plat s fileContent fileName options w =
     (let fileExt = fileExt_of fileName;
          ossPath = ossPath_of plat s fileContent fileName
      in case (if exist_check_wanted options then checkFileExists plat s ossPath w
               else (Inr False, w)) of
           (Inl err, w1) \<Rightarrow> (Inl err, w1)
         | (Inr True, w1) \<Rightarrow> (Inr (baseUrl_of s @ ''/'' @ ossPath), w1)
         | (Inr False, w1) \<Rightarrow>
             (case compress_step plat s fileContent fileName options w1 of
                (Inl err, w2) \<Rightarrow> (Inl err, w2)
              | (Inr finalContent, w2) \<Rightarrow>
                  (let contentType = ''image/'' @ fileExt
                   in case generateSignature plat s ossPath contentType w2 of
                        Inl err \<Rightarrow> (Inl err, w2)
                      | Inr (authorization, endpoint) \<Rightarrow>
                          (case retryOperation
                                  (put_operation plat endpoint authorization contentType
                                     finalContent)
                                  0 w2 of
                             (Inl err, w3) \<Rightarrow> (Inl err, w3)
                           | (Inr u, w3) \<Rightarrow> (Inr (baseUrl_of s @ ''/'' @ ossPath), w3)))))"

text \<open>\<open>uploadFile\<close>: the settings are validated, then the upload runs with the check on.\<close>

definition uploadFile ::
  "platform \<Rightarrow> AliyunOssSettings \<Rightarrow> bytes \<Rightarrow> string \<Rightarrow> progress_callback option \<Rightarrow> world
     \<Rightarrow> (thrown + string) \<times> world" where
  "uploadFile plat s fileContent fileName progressCallback w =
     (case validateSettings s of
        Inl err \<Rightarrow> (Inl err, w)
      | Inr u \<Rightarrow>
          uploadWithCompression plat s fileContent fileName
            (Some \<lparr>onProgress = progressCallback, skipExistCheck = Some False\<rparr>) w)"

section \<open>Observations on a trace\<close>

text \<open>The network requests of a trace, and those among them that are PUT requests.\<close>

fun requests_of :: "event list \<Rightarrow> RequestUrlParam list" where
  "requests_of [] = []"
| "requests_of (Request r # es) = r # requests_of es"
| "requests_of (Timer d # es) = requests_of es"
| "requests_of (Compression b n t opts # es) = requests_of es"

definition put_requests :: "event list \<Rightarrow> RequestUrlParam list" where
  "put_requests es = filter (\<lambda>r. http_method r = ''PUT'') (requests_of es)"

fun compressions_of :: "event list \<Rightarrow> event list" where
  "compressions_of [] = []"
| "compressions_of (Compression b n t opts # es) = Compression b n t opts # compressions_of es"
| "compressions_of (e # es) = compressions_of es"

definition header :: "string \<Rightarrow> RequestUrlParam \<Rightarrow> string option" where
  "header name r = map_of (headers r) name"

section \<open>The signed strings and the probe, by name\<close>

text \<open>
  The template strings that \<open>generateSignature\<close> and \<open>checkFileExists\<close> sign, the
  signature that \<open>calculateSignature\<close> returns when the key is imported, and the request
  object that \<open>checkFileExists\<close> sends, as functions of what they are built from. The
  lemmas \<open>calculateSignature_eq\<close>, \<open>generateSignature_eq\<close> and \<open>checkFileExists_eq\<close>
  below show that these are the values the functions use.
\<close>

definition signature_of :: "platform \<Rightarrow> string \<Rightarrow> string \<Rightarrow> string" where
  "signature_of plat stringToSign secret =
     btoa (subtle_sign plat SHA_1 (encode secret) (encode stringToSign))"

definition upload_stringToSign :: "AliyunOssSettings \<Rightarrow> string \<Rightarrow> string \<Rightarrow> string \<Rightarrow> string" where
  "upload_stringToSign s contentType date ossPath =
     ''PUT'' @ nl @ nl @ contentType @ nl @ date @ nl @ ''/'' @ bucket s @ ''/'' @ ossPath"

definition probe_stringToSign :: "AliyunOssSettings \<Rightarrow> string \<Rightarrow> string \<Rightarrow> string" where
  "probe_stringToSign s date ossPath =
     ''HEAD'' @ nl @ nl @ nl @ date @ nl @ ''/'' @ bucket s @ ''/'' @ ossPath"

definition probe_of :: "platform \<Rightarrow> AliyunOssSettings \<Rightarrow> string \<Rightarrow> world \<Rightarrow> RequestUrlParam" where
  "probe_of plat s ossPath w =
     \<lparr>url = ''https://'' @ bucket s @ ''.'' @ region s @ ''.aliyuncs.com/'' @ ossPath,
      http_method = ''HEAD'',
      headers =
        [(''Authorization'',
          ''OSS '' @ accessKeyId s @ '':'' @
            signature_of plat (probe_stringToSign s (toUTCString (now w)) ossPath)
              (accessKeySecret s)),
         (''Date'', toUTCString (now w))],
      body = None\<rparr>"

section \<open>Sample inputs\<close>

text \<open>
  Inputs on which the definitions are evaluated. The sample platform stands in for the Web
  Crypto interface by a digest of the right length made of zero bytes and by an HMAC that
  can be read: the key followed by the data, so that the base-64 text of a signature shows
  the key and every byte that was signed. Its compressor returns the image unchanged; the
  remote side is given separately.
\<close>

definition epoch :: world where
  "epoch = \<lparr>now = 0, trace = []\<rparr>"

definition sample_platform :: "(world \<Rightarrow> RequestUrlParam \<Rightarrow> request_outcome) \<Rightarrow> platform" where
  "sample_platform remote =
     \<lparr>subtle_digest = (\<lambda>h data. replicate (digest_bits h div 8) 0),
      subtle_sign = (\<lambda>h key data. key @ data),
      importKey_rejection = Error ''DataError: HMAC key data must not be empty'',
      imageCompression = (\<lambda>content name type opts. Inr content),
      respond = remote\<rparr>"

definition sample_settings :: AliyunOssSettings where
  "sample_settings =
     DEFAULT_SETTINGS\<lparr>accessKeyId := ''id'', accessKeySecret := ''secret'',
                      bucket := ''mybucket'', region := ''oss-cn-hangzhou''\<rparr>"

text \<open>A store that holds nothing and accepts every PUT.\<close>

definition empty_store :: "world \<Rightarrow> RequestUrlParam \<Rightarrow> request_outcome" where
  "empty_store w r =
     (if http_method r = ''HEAD'' then Rejected (Error ''Request failed, status 404'')
      else Resolved 200)"

text \<open>A store that already holds every object.\<close>

definition full_store :: "world \<Rightarrow> RequestUrlParam \<Rightarrow> request_outcome" where
  "full_store w r = Resolved 200"

text \<open>A store that holds nothing and answers every PUT with a server error.\<close>

definition broken_store :: "world \<Rightarrow> RequestUrlParam \<Rightarrow> request_outcome" where
  "broken_store w r =
     (if http_method r = ''HEAD'' then Rejected (Error ''Request failed, status 404'')
      else Rejected (Error ''Request failed, status 500''))"

text \<open>A remote side that answers every request with a redirect.\<close>

definition moved_store :: "world \<Rightarrow> RequestUrlParam \<Rightarrow> request_outcome" where
  "moved_store w r = Resolved 301"

text \<open>A remote side that refuses every request.\<close>

definition forbidding_store :: "world \<Rightarrow> RequestUrlParam \<Rightarrow> request_outcome" where
  "forbidding_store w r = Rejected (Error ''Request failed, status 403'')"

text \<open>The sample settings with the access key id left empty.\<close>

definition keyless_settings :: AliyunOssSettings where
  "keyless_settings = sample_settings\<lparr>accessKeyId := ''''\<rparr>"

text \<open>The sample settings with the access key secret left empty.\<close>

definition secretless_settings :: AliyunOssSettings where
  "secretless_settings = sample_settings\<lparr>accessKeySecret := []\<rparr>"

text \<open>The sample settings with compression off and other limits.\<close>

definition uncompressed_settings :: AliyunOssSettings where
  "uncompressed_settings =
     sample_settings\<lparr>enableCompression := False, maxSizeMB := 1, maxWidthOrHeight := 4000\<rparr>"

text \<open>
  Two operations for \<open>retryOperation\<close>: one fails until three seconds have passed, the
  other fails always; each failure carries the time of the attempt in its message.
\<close>

definition flaky_transfer :: "world \<Rightarrow> (thrown + string) \<times> world" where
  "flaky_transfer w =
     (if now w < 3000 then (Inl (Error (''failed at '' @ show_nat (now w))), w)
      else (Inr ''stored'', w))"

definition dead_transfer :: "world \<Rightarrow> (thrown + string) \<times> world" where
  "dead_transfer w = (Inl (Error (''failed at '' @ show_nat (now w))), w)"

section \<open>The storage key as the specification words it\<close>

text \<open>
  The specification describes the key as prefix, content digest in hexadecimal, a dot and the
  lower-case suffix of the file name. This definition follows those words; it is compared
  with \<open>ossPath_of\<close>, which follows the code.
\<close>

definition spec_storageKey :: "platform \<Rightarrow> AliyunOssSettings \<Rightarrow> bytes \<Rightarrow> string \<Rightarrow> string" where
  "spec_storageKey plat s fileContent fileName =
     path s @ calculateHash plat fileContent @ ''.'' @ toLowerCase (fileExt_of fileName)"

section \<open>Splitting a file name\<close>

lemma split_str_not_Nil: "split_str c s \<noteq> []"
  by (induction s) (auto split: list.splits)

lemma split_str_no_sep: "c \<notin> set s \<Longrightarrow> split_str c s = [s]"
  by (induction s) auto

lemma split_str_sep_tl: "c \<in> set s \<Longrightarrow> tl (split_str c s) \<noteq> []"
proof (induction s)
  case Nil
  then show ?case by simp
next
  case (Cons x xs)
  show ?case
  proof (cases "x = c")
    case True
    then show ?thesis by (simp add: split_str_not_Nil)
  next
    case False
    with Cons show ?thesis by (auto split: list.splits)
  qed
qed

text \<open>The last piece of a split is what follows the last separator.\<close>

lemma last_split_str:
  "last (split_str c s) = rev (takeWhile (\<lambda>x. x \<noteq> c) (rev s))"
proof (induction s)
  case Nil
  then show ?case by simp
next
  case (Cons x xs)
  show ?case
  proof (cases "x = c")
    case True
    with Cons show ?thesis
      by (simp add: split_str_not_Nil takeWhile_append)
  next
    case False
    show ?thesis
    proof (cases "c \<in> set xs")
      case True
      from split_str_sep_tl [OF True] obtain y z zs where "split_str c xs = y # z # zs"
        by (cases "split_str c xs"; cases "tl (split_str c xs)") auto
      with Cons True False show ?thesis
        by (auto simp: takeWhile_append)
    next
      case notin: False
      with False show ?thesis
        by (simp add: split_str_no_sep takeWhile_append)
    qed
  qed
qed

lemma fileExt_of_suffix:
  "fileExt_of fileName = rev (takeWhile (\<lambda>x. x \<noteq> CHR ''.'') (rev fileName))"
  by (simp add: fileExt_of_def pop_def split_str_not_Nil last_split_str)

lemma fileExt_of_no_dot: "CHR ''.'' \<notin> set fileName \<Longrightarrow> fileExt_of fileName = fileName"
  by (simp add: fileExt_of_def pop_def split_str_no_sep)

lemma split_str_append_sep:
  "c \<notin> set a \<Longrightarrow> split_str c (a @ c # b) = a # split_str c b"
  by (induction a) auto

section \<open>One step of the retry\<close>

lemma retry_ok:
  "operation w = (Inr v, w') \<Longrightarrow> retryOperation operation n w = (Inr v, w')"
  by (subst retryOperation.simps) simp

lemma retry_again:
  "operation w = (Inl e, w') \<Longrightarrow> n < maxRetries \<Longrightarrow>
   retryOperation operation n w =
     retryOperation operation (Suc n) (setTimeout (2 ^ n * 1000) w')"
  by (subst retryOperation.simps) simp

lemma retry_give_up:
  "operation w = (Inl e, w') \<Longrightarrow> \<not> n < maxRetries \<Longrightarrow>
   retryOperation operation n w = (Inl e, w')"
  by (subst retryOperation.simps) simp

lemma retry_two_failures:
  assumes a1: "operation w0 = (Inl e1, w1)"
      and a2: "operation (setTimeout 1000 w1) = (Inl e2, w2)"
  shows "retryOperation operation 0 w0
           = retryOperation operation (Suc (Suc 0)) (setTimeout 2000 w2)"
proof -
  have "retryOperation operation 0 w0 = retryOperation operation (Suc 0) (setTimeout 1000 w1)"
    using retry_again [of operation w0 e1 w1 0] a1 by (simp add: maxRetries_def)
  also have "\<dots> = retryOperation operation (Suc (Suc 0)) (setTimeout 2000 w2)"
    using retry_again [of operation "setTimeout 1000 w1" e2 w2 "Suc 0"] a2
    by (simp add: maxRetries_def)
  finally show ?thesis .
qed

lemma retry_four_failures:
  assumes a1: "operation w0 = (Inl e1, w1)"
      and a2: "operation (setTimeout 1000 w1) = (Inl e2, w2)"
      and a3: "operation (setTimeout 2000 w2) = (Inl e3, w3)"
      and a4: "operation (setTimeout 4000 w3) = (Inl e4, w4)"
  shows "retryOperation operation 0 w0 = (Inl e4, w4)"
proof -
  have "retryOperation operation 0 w0
          = retryOperation operation (Suc (Suc 0)) (setTimeout 2000 w2)"
    by (rule retry_two_failures [OF a1 a2])
  also have "\<dots> = retryOperation operation (Suc (Suc (Suc 0))) (setTimeout 4000 w3)"
    using retry_again [of operation "setTimeout 2000 w2" e3 w3 "Suc (Suc 0)"] a3
    by (simp add: maxRetries_def)
  also have "\<dots> = (Inl e4, w4)"
    using retry_give_up [of operation "setTimeout 4000 w3" e4 w4 "Suc (Suc (Suc 0))"] a4
    by (simp add: maxRetries_def)
  finally show ?thesis .
qed

text \<open>An error that leaves the retry is an error of one of the attempts.\<close>

lemma retry_error_origin:
  "fst (retryOperation operation n w) = Inl e \<Longrightarrow> \<exists>w'. fst (operation w') = Inl e"
proof (induction "maxRetries - n" arbitrary: n w)
  case 0
  then have n: "\<not> n < maxRetries" by simp
  obtain res w1 where st: "operation w = (res, w1)" by (cases "operation w")
  show ?case
  proof (cases res)
    case (Inl e')
    with st n 0 have "e' = e" by (simp add: retry_give_up)
    with st Inl have "fst (operation w) = Inl e" by simp
    then show ?thesis ..
  next
    case (Inr v)
    with st 0 show ?thesis by (simp add: retry_ok)
  qed
next
  case (Suc k)
  then have n: "n < maxRetries" and k: "k = maxRetries - Suc n" by simp_all
  obtain res w1 where st: "operation w = (res, w1)" by (cases "operation w")
  show ?case
  proof (cases res)
    case (Inl e')
    with st n Suc.prems
    have "fst (retryOperation operation (Suc n) (setTimeout (2 ^ n * 1000) w1)) = Inl e"
      by (simp add: retry_again)
    from Suc.hyps(1) [OF k this] show ?thesis .
  next
    case (Inr v)
    with st Suc.prems show ?thesis by (simp add: retry_ok)
  qed
qed

section \<open>What each step adds to the trace\<close>

lemma requests_of_append: "requests_of (xs @ ys) = requests_of xs @ requests_of ys"
  by (induction xs rule: requests_of.induct) auto

lemma put_requests_append: "put_requests (xs @ ys) = put_requests xs @ put_requests ys"
  by (simp add: put_requests_def requests_of_append)

lemma compressions_of_append:
  "compressions_of (xs @ ys) = compressions_of xs @ compressions_of ys"
  by (induction xs rule: compressions_of.induct) auto

lemma put_operation_step:
  "\<exists>res d. put_operation plat ep auth ct content w =
      (res, w\<lparr>trace := trace w @
         [Request \<lparr>url = ep, http_method = ''PUT'',
                   headers = [(''Authorization'', auth), (''Date'', d), (''Content-Type'', ct)],
                   body = Some content\<rparr>]\<rparr>)"
  by (auto simp: put_operation_def requestUrl_def split: request_outcome.splits)

text \<open>
  Whatever the remote side answers, the retried transfer adds only timers and PUT requests,
  all to the same address, with the same body, authorization and content type.
\<close>

lemma retry_put_trace:
  "\<exists>evs. trace (snd (retryOperation (put_operation plat ep auth ct content) n w))
            = trace w @ evs \<and> evs \<noteq> [] \<and> compressions_of evs = [] \<and>
         (\<forall>r \<in> set (requests_of evs).
            http_method r = ''PUT'' \<and> url r = ep \<and> body r = Some content \<and>
            header ''Authorization'' r = Some auth \<and> header ''Content-Type'' r = Some ct)"
proof (induction "maxRetries - n" arbitrary: n w)
  case 0
  obtain res d where st: "put_operation plat ep auth ct content w =
      (res, w\<lparr>trace := trace w @
         [Request \<lparr>url = ep, http_method = ''PUT'',
                   headers = [(''Authorization'', auth), (''Date'', d), (''Content-Type'', ct)],
                   body = Some content\<rparr>]\<rparr>)"
    using put_operation_step by blast
  from 0 have n: "\<not> n < maxRetries" by simp
  show ?case
  proof (cases res)
    case (Inl e)
    with st n show ?thesis
      by (simp add: retry_give_up header_def)
  next
    case (Inr v)
    with st show ?thesis
      by (simp add: retry_ok header_def)
  qed
next
  case (Suc k)
  obtain res d where st: "put_operation plat ep auth ct content w =
      (res, w\<lparr>trace := trace w @
         [Request \<lparr>url = ep, http_method = ''PUT'',
                   headers = [(''Authorization'', auth), (''Date'', d), (''Content-Type'', ct)],
                   body = Some content\<rparr>]\<rparr>)"
    using put_operation_step by blast
  from Suc have n: "n < maxRetries" and k: "k = maxRetries - Suc n" by simp_all
  show ?case
  proof (cases res)
    case (Inr v)
    with st show ?thesis
      by (simp add: retry_ok header_def)
  next
    case (Inl e)
    let ?w1 = "setTimeout (2 ^ n * 1000) (w\<lparr>trace := trace w @
         [Request \<lparr>url = ep, http_method = ''PUT'',
                   headers = [(''Authorization'', auth), (''Date'', d), (''Content-Type'', ct)],
                   body = Some content\<rparr>]\<rparr>)"
    from Suc.hyps(1) [OF k, of ?w1] obtain evs where
      evs: "trace (snd (retryOperation (put_operation plat ep auth ct content) (Suc n) ?w1))
              = trace ?w1 @ evs" "compressions_of evs = []"
         "\<forall>r \<in> set (requests_of evs).
            http_method r = ''PUT'' \<and> url r = ep \<and> body r = Some content \<and>
            header ''Authorization'' r = Some auth \<and> header ''Content-Type'' r = Some ct"
      by blast
    from st Inl n have "retryOperation (put_operation plat ep auth ct content) n w
        = retryOperation (put_operation plat ep auth ct content) (Suc n) ?w1"
      by (simp add: retry_again)
    with evs show ?thesis
      by (simp add: setTimeout_def header_def requests_of_append compressions_of_append)
  qed
qed

text \<open>
  Signing succeeds exactly when the secret is not empty, and then gives the base-64 text of
  the HMAC of the string under the bytes of the secret.
\<close>

lemma importKey_encode:
  "importKey plat (encode secret)
     = (if secret = [] then Inl (importKey_rejection plat) else Inr (encode secret))"
  by (simp add: importKey_def encode_def)

lemma calculateSignature_eq:
  "calculateSignature plat stringToSign secret
     = (if secret = [] then Inl (importKey_rejection plat)
        else Inr (signature_of plat stringToSign secret))"
  by (simp add: calculateSignature_def importKey_encode signature_of_def)

lemma generateSignature_eq:
  "generateSignature plat s ossPath contentType w =
     (if accessKeySecret s = [] then Inl (importKey_rejection plat)
      else Inr (''OSS '' @ accessKeyId s @ '':'' @
                  signature_of plat
                    (upload_stringToSign s contentType (toUTCString (now w)) ossPath)
                    (accessKeySecret s),
                ''https://'' @ bucket s @ ''.'' @ region s @ ''.aliyuncs.com/'' @ ossPath))"
  by (simp add: generateSignature_def calculateSignature_eq upload_stringToSign_def Let_def)

text \<open>The probe as a pair: what it returns and the world it leaves.\<close>

lemma checkFileExists_eq:
  "checkFileExists plat s ossPath w =
     (if accessKeySecret s = [] then (probe_catch (importKey_rejection plat), w)
      else (case respond plat w (probe_of plat s ossPath w) of
              Resolved status \<Rightarrow> Inr (status = 200)
            | Rejected error \<Rightarrow> probe_catch error,
            w\<lparr>trace := trace w @ [Request (probe_of plat s ossPath w)]\<rparr>))"
  by (simp add: checkFileExists_def calculateSignature_eq requestUrl_def probe_of_def
        probe_stringToSign_def Let_def split: request_outcome.splits)

lemma probe_catch_not_True: "probe_catch error \<noteq> Inr True"
  by (simp add: probe_catch_def split: thrown.splits)

lemma probe_catch_Inl: "probe_catch error = Inl e \<Longrightarrow> e = error"
  by (simp add: probe_catch_def split: thrown.splits if_splits)

lemma checkFileExists_present_signed:
  "fst (checkFileExists plat s ossPath w) = Inr True \<Longrightarrow> accessKeySecret s \<noteq> []"
  by (auto simp: checkFileExists_eq probe_catch_not_True)

lemma checkFileExists_probe:
  "accessKeySecret s \<noteq> [] \<Longrightarrow>
   snd (checkFileExists plat s ossPath w)
     = w\<lparr>trace := trace w @ [Request (probe_of plat s ossPath w)]\<rparr>"
  by (simp add: checkFileExists_eq)

lemma checkFileExists_result:
  "accessKeySecret s \<noteq> [] \<Longrightarrow>
   fst (checkFileExists plat s ossPath w) =
     (case respond plat w (probe_of plat s ossPath w) of
        Resolved status \<Rightarrow> Inr (status = 200)
      | Rejected error \<Rightarrow> probe_catch error)"
  by (simp add: checkFileExists_eq)

lemma checkFileExists_unsigned:
  "accessKeySecret s = [] \<Longrightarrow>
   checkFileExists plat s ossPath w = (probe_catch (importKey_rejection plat), w)"
  by (simp add: checkFileExists_eq)

lemma check_step_trace:
  "\<exists>evs. trace (snd (if exist_check_wanted options then checkFileExists plat s key w
                      else (Inr False, w))) = trace w @ evs
         \<and> put_requests evs = [] \<and> compressions_of evs = []"
  by (simp add: checkFileExists_eq put_requests_def probe_of_def)

lemma compress_step_trace:
  "\<exists>evs. trace (snd (compress_step plat s content fileName options w)) = trace w @ evs
         \<and> requests_of evs = []"
  by (simp add: compress_step_def Let_def)

lemma check_step_now:
  "now (snd (if exist_check_wanted options then checkFileExists plat s key w
             else (Inr False, w))) = now w"
  by (simp add: checkFileExists_eq)

lemma compress_step_now:
  "now (snd (compress_step plat s content fileName options w)) = now w"
  by (simp add: compress_step_def Let_def)

section \<open>The paths through the upload\<close>

text \<open>A successful upload returns the address of the key under the base address.\<close>

lemma upload_success_url:
  "fst (uploadWithCompression plat s content fileName options w) = Inr u \<Longrightarrow>
   u = baseUrl_of s @ ''/'' @ ossPath_of plat s content fileName"
  by (auto simp: uploadWithCompression_def Let_def
           split: prod.splits sum.splits bool.splits if_splits)

lemma upload_present:
  assumes "exist_check_wanted options"
      and "fst (checkFileExists plat s (ossPath_of plat s content fileName) w) = Inr True"
  shows "uploadWithCompression plat s content fileName options w =
           (Inr (baseUrl_of s @ ''/'' @ ossPath_of plat s content fileName),
            snd (checkFileExists plat s (ossPath_of plat s content fileName) w))"
  using assms
  by (cases "checkFileExists plat s (ossPath_of plat s content fileName) w")
     (simp add: uploadWithCompression_def Let_def)

text \<open>
  Every PUT request of an upload goes to the address of the key, carries the content type
  made from the suffix of the file name, and carries the authorization signed over the time
  at which the upload was started, however late the request is sent.
\<close>

lemma upload_put_requests:
  "\<exists>evs. trace (snd (uploadWithCompression plat s content fileName options w)) = trace w @ evs
     \<and> (\<forall>r \<in> set (put_requests evs).
           header ''Content-Type'' r = Some (''image/'' @ fileExt_of fileName) \<and>
           url r = ''https://'' @ bucket s @ ''.'' @ region s @ ''.aliyuncs.com/''
                     @ ossPath_of plat s content fileName \<and>
           header ''Authorization'' r
             = Some (''OSS '' @ accessKeyId s @ '':'' @
                     signature_of plat
                       (upload_stringToSign s (''image/'' @ fileExt_of fileName)
                          (toUTCString (now w)) (ossPath_of plat s content fileName))
                       (accessKeySecret s)))"
proof -
  let ?key = "ossPath_of plat s content fileName"
  let ?ct = "''image/'' @ fileExt_of fileName"
  let ?c = "if exist_check_wanted options then checkFileExists plat s ?key w else (Inr False, w)"
  obtain r1 w1 where c: "?c = (r1, w1)" by (cases ?c)
  from check_step_trace [of options plat s ?key w] c
  obtain evs1 where evs1: "trace w1 = trace w @ evs1" "put_requests evs1 = []"
    by auto
  from check_step_now [of options plat s ?key w] c have n1: "now w1 = now w"
    by simp
  show ?thesis
  proof (cases r1)
    case (Inl e)
    with c evs1 show ?thesis
      by (simp add: uploadWithCompression_def Let_def del: split_paired_Ex)
  next
    case (Inr present)
    show ?thesis
    proof (cases present)
      case True
      with Inr c evs1 show ?thesis
        by (simp add: uploadWithCompression_def Let_def)
    next
      case False
      obtain r2 w2 where k: "compress_step plat s content fileName options w1 = (r2, w2)"
        by (cases "compress_step plat s content fileName options w1")
      from compress_step_trace [of plat s content fileName options w1] k
      obtain evs2 where evs2: "trace w2 = trace w1 @ evs2" "requests_of evs2 = []"
        by auto
      from compress_step_now [of plat s content fileName options w1] k n1
      have n2: "now w2 = now w" by simp
      show ?thesis
      proof (cases r2)
        case (Inl e)
        with Inr False c k evs1 evs2 show ?thesis
          by (simp add: uploadWithCompression_def Let_def put_requests_append)
             (simp add: put_requests_def)
      next
        case fin: (Inr finalContent)
        show ?thesis
        proof (cases "generateSignature plat s ?key ?ct w2")
          case (Inl e)
          with Inr False c k fin evs1 evs2 show ?thesis
            by (simp add: uploadWithCompression_def Let_def put_requests_append)
               (simp add: put_requests_def)
        next
          case sig: (Inr p)
          obtain auth ep where p: "p = (auth, ep)" by (cases p)
          from sig p n2
          have ep: "ep = ''https://'' @ bucket s @ ''.'' @ region s @ ''.aliyuncs.com/'' @ ?key"
            and auth: "auth = ''OSS '' @ accessKeyId s @ '':'' @
                         signature_of plat (upload_stringToSign s ?ct (toUTCString (now w)) ?key)
                           (accessKeySecret s)"
            by (simp_all add: generateSignature_eq split: if_splits)
          obtain r3 w3 where
            t: "retryOperation (put_operation plat ep auth ?ct finalContent) 0 w2 = (r3, w3)"
            by (cases "retryOperation (put_operation plat ep auth ?ct finalContent) 0 w2")
          from retry_put_trace [of plat ep auth ?ct finalContent 0 w2] t
          obtain evs3 where evs3: "trace w3 = trace w2 @ evs3"
            "\<forall>r \<in> set (requests_of evs3).
               url r = ep \<and> header ''Content-Type'' r = Some ?ct
               \<and> header ''Authorization'' r = Some auth"
            by auto
          have up: "snd (uploadWithCompression plat s content fileName options w) = w3"
            using c Inr False k fin sig p t
            by (simp add: uploadWithCompression_def Let_def split: sum.splits)
          have "\<forall>r \<in> set (put_requests (evs1 @ evs2 @ evs3)).
                  header ''Content-Type'' r = Some ?ct \<and> url r = ep
                  \<and> header ''Authorization'' r = Some auth"
            using evs1 evs2 evs3 by (auto simp: put_requests_append) (auto simp: put_requests_def)
          with up evs1 evs2 evs3 ep auth show ?thesis
            by (intro exI [of _ "evs1 @ evs2 @ evs3"]) simp
        qed
      qed
    qed
  qed
qed

text \<open>
  Where the error of a failed upload comes from: the import of the key, the compressor, a
  rejection by the remote side, or a status other than 200 in answer to a PUT.
\<close>

lemma put_operation_error_origin:
  assumes "fst (put_operation plat ep auth ct content w) = Inl e"
  shows "(\<exists>w' r. respond plat w' r = Rejected e)
       \<or> (\<exists>st. st \<noteq> 200 \<and> e = Error (msg_upload_failed @ '': HTTP '' @ show_nat st))"
  using assms
  by (auto simp: put_operation_def requestUrl_def split: request_outcome.splits if_splits)

lemma check_error_origin:
  assumes "fst (checkFileExists plat s key w) = Inl e"
  shows "(accessKeySecret s = [] \<and> e = importKey_rejection plat)
       \<or> (\<exists>w' r. respond plat w' r = Rejected e)"
proof (cases "accessKeySecret s = []")
  case True
  with assms have "probe_catch (importKey_rejection plat) = Inl e"
    by (simp add: checkFileExists_eq)
  from probe_catch_Inl [OF this] True show ?thesis by simp
next
  case False
  with assms have
    "(case respond plat w (probe_of plat s key w) of
        Resolved status \<Rightarrow> Inr (status = 200)
      | Rejected error \<Rightarrow> probe_catch error) = Inl e"
    by (simp add: checkFileExists_eq)
  then obtain error where "respond plat w (probe_of plat s key w) = Rejected error"
    and "probe_catch error = Inl e"
    by (auto split: request_outcome.splits)
  with probe_catch_Inl [of error e] show ?thesis by blast
qed

lemma compress_error_origin:
  assumes "fst (compress_step plat s content fileName options w) = Inl e"
  shows "enableCompression s \<and> is_image_ext (fileExt_of fileName)
       \<and> (\<exists>opts. imageCompression plat content fileName
                     (blob_type (''image/'' @ fileExt_of fileName)) opts = Inl e)"
  using assms by (auto simp: compress_step_def Let_def split: if_splits)

lemma upload_error_origin:
  assumes "fst (uploadWithCompression plat s content fileName options w) = Inl e"
  shows "(accessKeySecret s = [] \<and> e = importKey_rejection plat)
       \<or> (enableCompression s \<and> is_image_ext (fileExt_of fileName)
           \<and> (\<exists>opts. imageCompression plat content fileName
                         (blob_type (''image/'' @ fileExt_of fileName)) opts = Inl e))
       \<or> (\<exists>w' r. respond plat w' r = Rejected e)
       \<or> (\<exists>st. st \<noteq> 200 \<and> e = Error (msg_upload_failed @ '': HTTP '' @ show_nat st))"
proof -
  let ?key = "ossPath_of plat s content fileName"
  let ?ct = "''image/'' @ fileExt_of fileName"
  let ?c = "if exist_check_wanted options then checkFileExists plat s ?key w else (Inr False, w)"
  obtain r1 w1 where c: "?c = (r1, w1)" by (cases ?c)
  show ?thesis
  proof (cases r1)
    case (Inl e1)
    with c assms have "e1 = e"
      by (simp add: uploadWithCompression_def Let_def)
    with c Inl have "fst (checkFileExists plat s ?key w) = Inl e"
      by (auto split: if_splits)
    from check_error_origin [OF this] show ?thesis by blast
  next
    case (Inr present)
    show ?thesis
    proof (cases present)
      case True
      with Inr c assms show ?thesis
        by (simp add: uploadWithCompression_def Let_def)
    next
      case False
      obtain r2 w2 where k: "compress_step plat s content fileName options w1 = (r2, w2)"
        by (cases "compress_step plat s content fileName options w1")
      show ?thesis
      proof (cases r2)
        case (Inl e2)
        with Inr False c k assms have "e2 = e"
          by (simp add: uploadWithCompression_def Let_def)
        with k Inl have "fst (compress_step plat s content fileName options w1) = Inl e"
          by simp
        from compress_error_origin [OF this] show ?thesis by blast
      next
        case fin: (Inr finalContent)
        show ?thesis
        proof (cases "generateSignature plat s ?key ?ct w2")
          case (Inl e3)
          with Inr False c k fin assms have "e3 = e"
            by (simp add: uploadWithCompression_def Let_def)
          with Inl show ?thesis
            by (simp add: generateSignature_eq split: if_splits)
        next
          case sig: (Inr p)
          obtain auth ep where p: "p = (auth, ep)" by (cases p)
          obtain r3 w3 where
            t: "retryOperation (put_operation plat ep auth ?ct finalContent) 0 w2 = (r3, w3)"
            by (cases "retryOperation (put_operation plat ep auth ?ct finalContent) 0 w2")
          with Inr False c k fin sig p assms
          have "fst (retryOperation (put_operation plat ep auth ?ct finalContent) 0 w2) = Inl e"
            by (cases r3) (simp_all add: uploadWithCompression_def Let_def)
          from retry_error_origin [OF this] obtain w' where
            "fst (put_operation plat ep auth ?ct finalContent w') = Inl e" ..
          from put_operation_error_origin [OF this] show ?thesis by blast
        qed
      qed
    qed
  qed
qed

text \<open>An error of the probe ends the upload: nothing is sent after the probe.\<close>

lemma upload_probe_error:
  assumes "exist_check_wanted options"
      and "fst (checkFileExists plat s (ossPath_of plat s content fileName) w) = Inl e"
  shows "uploadWithCompression plat s content fileName options w =
           (Inl e, snd (checkFileExists plat s (ossPath_of plat s content fileName) w))"
  using assms
  by (cases "checkFileExists plat s (ossPath_of plat s content fileName) w")
     (simp add: uploadWithCompression_def Let_def)

text \<open>\<open>uploadFile\<close> refuses incomplete settings before anything else happens.\<close>

lemma validateSettings_incomplete:
  "accessKeyId s = [] \<or> accessKeySecret s = [] \<or> bucket s = [] \<or> region s = []
   \<Longrightarrow> \<exists>m. validateSettings s = Inl (Error m)"
  by (auto simp: validateSettings_def)

lemma uploadFile_incomplete:
  assumes "accessKeyId s = [] \<or> accessKeySecret s = [] \<or> bucket s = [] \<or> region s = []"
  shows "\<exists>m. uploadFile plat s content fileName progressCallback w = (Inl (Error m), w)"
proof -
  from validateSettings_incomplete [OF assms] obtain m where "validateSettings s = Inl (Error m)"
    by blast
  then show ?thesis by (simp add: uploadFile_def)
qed

lemma hexdigit_range: "hexdigit n \<in> set ''0123456789abcdef''"
  unfolding hexdigit_def by (rule nth_mem) simp

lemma calculateHash_hex: "set (calculateHash plat data) \<subseteq> set ''0123456789abcdef''"
proof
  fix c assume "c \<in> set (calculateHash plat data)"
  then obtain b where "c \<in> set (hex2 b)"
    by (auto simp: calculateHash_def)
  then have "c = hexdigit (unat b div 16) \<or> c = hexdigit (unat b)"
    by (simp add: hex2_def)
  then show "c \<in> set ''0123456789abcdef''"
    using hexdigit_range [of "unat b div 16"] hexdigit_range [of "unat b"] by auto
qed

lemma calculateHash_length:
  "length (calculateHash plat data) = 2 * length (subtle_digest plat SHA_256 data)"
  by (simp add: calculateHash_def length_concat comp_def hex2_def sum_list_triv)

lemmas date_defs = toUTCString_def utc_string_def year_of_def month_of_def day_of_def mp_of_def
  doy_of_def yoe_of_def day_name_def month_name_def pad2_def pad4_def digit_def

lemma sample_digest:
  "subtle_digest (sample_platform remote) SHA_256 data = replicate 32 0"
  by (simp add: sample_platform_def)

lemma hex2_zero: "hex2 0 = ''00''"
  by (simp add: hex2_def hexdigit_def)

lemma concat_zeros:
  "concat (replicate 32 ''00'')
     = ''0000000000000000000000000000000000000000000000000000000000000000''"
  by code_simp

lemma sample_hash:
  "calculateHash (sample_platform remote) data
     = ''0000000000000000000000000000000000000000000000000000000000000000''"
  by (simp add: calculateHash_def sample_digest hex2_zero concat_zeros)

lemma ext_of_samples:
  "fileExt_of ''photo.PNG'' = ''PNG''" "fileExt_of ''photo.png'' = ''png''"
  "fileExt_of ''a.png'' = ''png''" "fileExt_of ''README'' = ''README''"
  by code_simp+

lemma lower_of_samples:
  "toLowerCase ''PNG'' = ''png''" "toLowerCase ''png'' = ''png''"
  by code_simp+

section \<open>Evaluating the sample inputs\<close>

lemma sample_respond: "respond (sample_platform remote) = remote"
  by (simp add: sample_platform_def)

lemma sample_compress:
  "imageCompression (sample_platform remote) content name type opts = Inr content"
  by (simp add: sample_platform_def)

lemma sample_rejection:
  "importKey_rejection (sample_platform remote)
     = Error ''DataError: HMAC key data must not be empty''"
  by (simp add: sample_platform_def)

lemma sample_sign:
  "subtle_sign (sample_platform remote) h key data = key @ data"
  by (simp add: sample_platform_def)

lemma sample_fields:
  "accessKeyId sample_settings = ''id''" "accessKeySecret sample_settings = ''secret''"
  "bucket sample_settings = ''mybucket''" "region sample_settings = ''oss-cn-hangzhou''"
  "customDomain sample_settings = []" "path sample_settings = ''obsidian/''"
  "enableCompression sample_settings" "maxSizeMB sample_settings = 3 / 10"
  "maxWidthOrHeight sample_settings = 1280"
  by (simp_all add: sample_settings_def DEFAULT_SETTINGS_def)

lemma keyless_fields:
  "accessKeyId keyless_settings = []" "accessKeySecret keyless_settings = ''secret''"
  "bucket keyless_settings = ''mybucket''" "region keyless_settings = ''oss-cn-hangzhou''"
  "customDomain keyless_settings = []" "path keyless_settings = ''obsidian/''"
  "enableCompression keyless_settings" "maxSizeMB keyless_settings = 3 / 10"
  "maxWidthOrHeight keyless_settings = 1280"
  by (simp_all add: keyless_settings_def sample_settings_def DEFAULT_SETTINGS_def)

lemma secretless_fields:
  "accessKeyId secretless_settings = ''id''" "accessKeySecret secretless_settings = []"
  "bucket secretless_settings = ''mybucket''" "region secretless_settings = ''oss-cn-hangzhou''"
  "customDomain secretless_settings = []" "path secretless_settings = ''obsidian/''"
  "enableCompression secretless_settings" "maxSizeMB secretless_settings = 3 / 10"
  "maxWidthOrHeight secretless_settings = 1280"
  by (simp_all add: secretless_settings_def sample_settings_def DEFAULT_SETTINGS_def)

lemma sample_key:
  "path s = ''obsidian/'' \<Longrightarrow>
   ossPath_of (sample_platform remote) s content ''a.png''
     = ''obsidian/0000000000000000000000000000000000000000000000000000000000000000.png''"
  by (simp add: ossPath_of_def Let_def sample_hash ext_of_samples)

lemma image_png: "is_image_ext ''png''"
  by (simp add: is_image_ext_def lower_of_samples)

lemma blob_type_png: "blob_type ''image/png'' = ''image/png''"
  by code_simp

lemma utc_samples:
  "toUTCString 0 = ''Thu, 01 Jan 1970 00:00:00 GMT''"
  "toUTCString 1000 = ''Thu, 01 Jan 1970 00:00:01 GMT''"
  "toUTCString 3000 = ''Thu, 01 Jan 1970 00:00:03 GMT''"
  "toUTCString 7000 = ''Thu, 01 Jan 1970 00:00:07 GMT''"
  "toUTCString 1546300800000 = ''Tue, 01 Jan 2019 00:00:00 GMT''"
  by (simp_all add: date_defs)

lemma sample_compress_step:
  assumes "enableCompression s"
  shows "compress_step (sample_platform remote) s content ''a.png'' None w
       = (Inr content,
          w\<lparr>trace := trace w @
             [Compression content ''a.png'' ''image/png''
                \<lparr>opt_maxSizeMB = maxSizeMB s, opt_maxWidthOrHeight = maxWidthOrHeight s,
                 useWebWorker = True, opt_onProgress = None\<rparr>]\<rparr>)"
  using assms
  by (simp add: compress_step_def Let_def ext_of_samples image_png sample_compress
        blob_type_png)

text \<open>One PUT, by what the remote side answers.\<close>

lemma put_operation_rejected:
  assumes "\<And>w r. http_method r = ''PUT'' \<Longrightarrow> respond plat w r = Rejected e"
  shows "put_operation plat ep auth ct content w
       = (Inl e,
          w\<lparr>trace := trace w @
             [Request \<lparr>url = ep, http_method = ''PUT'',
                headers = [(''Authorization'', auth), (''Date'', toUTCString (now w)),
                           (''Content-Type'', ct)],
                body = Some content\<rparr>]\<rparr>)"
  by (simp add: put_operation_def requestUrl_def assms)

lemma put_operation_status:
  assumes "\<And>w r. http_method r = ''PUT'' \<Longrightarrow> respond plat w r = Resolved st"
  shows "put_operation plat ep auth ct content w
       = (if st \<noteq> 200 then Inl (Error (msg_upload_failed @ '': HTTP '' @ show_nat st))
          else Inr (),
          w\<lparr>trace := trace w @
             [Request \<lparr>url = ep, http_method = ''PUT'',
                headers = [(''Authorization'', auth), (''Date'', toUTCString (now w)),
                           (''Content-Type'', ct)],
                body = Some content\<rparr>]\<rparr>)"
  by (simp add: put_operation_def requestUrl_def assms)

lemma put_operation_world:
  "snd (put_operation plat ep auth ct content w)
     = w\<lparr>trace := trace w @
          [Request \<lparr>url = ep, http_method = ''PUT'',
             headers = [(''Authorization'', auth), (''Date'', toUTCString (now w)),
                        (''Content-Type'', ct)],
             body = Some content\<rparr>]\<rparr>"
  by (simp add: put_operation_def requestUrl_def split: request_outcome.splits)

text \<open>
  A transfer that fails with the same error in every world: the whole run of
  \<open>retryOperation\<close>, four requests with three timers between them.
\<close>

lemma put_retry_all_fail:
  assumes "\<And>w. fst (put_operation plat ep auth ct content w) = Inl e"
  shows "retryOperation (put_operation plat ep auth ct content) 0 w
       = (Inl e,
          \<lparr>now = now w + 7000,
           trace = trace w @
             [Request \<lparr>url = ep, http_method = ''PUT'',
                headers = [(''Authorization'', auth), (''Date'', toUTCString (now w)),
                           (''Content-Type'', ct)],
                body = Some content\<rparr>,
              Timer 1000,
              Request \<lparr>url = ep, http_method = ''PUT'',
                headers = [(''Authorization'', auth), (''Date'', toUTCString (now w + 1000)),
                           (''Content-Type'', ct)],
                body = Some content\<rparr>,
              Timer 2000,
              Request \<lparr>url = ep, http_method = ''PUT'',
                headers = [(''Authorization'', auth), (''Date'', toUTCString (now w + 3000)),
                           (''Content-Type'', ct)],
                body = Some content\<rparr>,
              Timer 4000,
              Request \<lparr>url = ep, http_method = ''PUT'',
                headers = [(''Authorization'', auth), (''Date'', toUTCString (now w + 7000)),
                           (''Content-Type'', ct)],
                body = Some content\<rparr>]\<rparr>)"
proof -
  have step: "\<And>w. put_operation plat ep auth ct content w
      = (Inl e,
         w\<lparr>trace := trace w @
            [Request \<lparr>url = ep, http_method = ''PUT'',
               headers = [(''Authorization'', auth), (''Date'', toUTCString (now w)),
                          (''Content-Type'', ct)],
               body = Some content\<rparr>]\<rparr>)"
    by (simp add: prod_eq_iff assms put_operation_world)
  show ?thesis
    by (rule trans [OF retry_four_failures [OF step step step step]])
       (simp add: setTimeout_def add.assoc)
qed

lemma five_lines:
  assumes "CHR 0x0A \<notin> set (a @ b @ c @ d @ e)"
  shows "split_str (CHR 0x0A) (a @ nl @ b @ nl @ c @ nl @ d @ nl @ e) = [a, b, c, d, e]"
proof -
  from assms have n: "CHR 0x0A \<notin> set a" "CHR 0x0A \<notin> set b" "CHR 0x0A \<notin> set c"
    "CHR 0x0A \<notin> set d" "CHR 0x0A \<notin> set e" by auto
  show ?thesis
    by (simp add: nl_def split_str_append_sep n split_str_no_sep)
qed

lemma retry_first_success:
  "\<not> isl (fst (operation w)) \<Longrightarrow> retryOperation operation n w = operation w"
  by (cases "operation w"; cases "fst (operation w)") (auto simp: retry_ok)

text \<open>
  Signatures of the sample platform, whose HMAC is the key followed by the data: the
  base-64 text of the secret followed by the string that was signed.
\<close>

lemma encode_append: "encode (a @ b) = encode a @ encode b"
  by (simp add: encode_def)

lemma sample_signature:
  "signature_of (sample_platform remote) stringToSign secret
     = btoa (encode (secret @ stringToSign))"
  by (simp add: signature_of_def sample_sign encode_append)

lemma btoa_put_at_0:
  "btoa (encode (''secret'' @ ''PUT'' @ [CHR 0x0A] @ [CHR 0x0A] @ ''image/png'' @ [CHR 0x0A]
           @ ''Thu, 01 Jan 1970 00:00:00 GMT'' @ [CHR 0x0A] @ ''/mybucket/obsidian/0000000000000000000000000000000000000000000000000000000000000000.png''))
     = ''c2VjcmV0UFVUCgppbWFnZS9wbmcKVGh1LCAwMSBKYW4gMTk3MCAwMDowMDowMCBHTVQKL215YnVja2V0L29ic2lkaWFuLzAwMDAwMDAwMDAwMDAwMDAwMDAwMDAwMDAwMDAwMDAwMDAwMDAwMDAwMDAwMDAwMDAwMDAwMDAwMDAwMDAwMDAucG5n''"
  by code_simp

lemma btoa_put_at_1:
  "btoa (encode (''secret'' @ ''PUT'' @ [CHR 0x0A] @ [CHR 0x0A] @ ''image/png'' @ [CHR 0x0A]
           @ ''Thu, 01 Jan 1970 00:00:01 GMT'' @ [CHR 0x0A] @ ''/mybucket/obsidian/0000000000000000000000000000000000000000000000000000000000000000.png''))
     = ''c2VjcmV0UFVUCgppbWFnZS9wbmcKVGh1LCAwMSBKYW4gMTk3MCAwMDowMDowMSBHTVQKL215YnVja2V0L29ic2lkaWFuLzAwMDAwMDAwMDAwMDAwMDAwMDAwMDAwMDAwMDAwMDAwMDAwMDAwMDAwMDAwMDAwMDAwMDAwMDAwMDAwMDAwMDAucG5n''"
  by code_simp

lemma btoa_put_abc:
  "btoa (encode (''secret'' @ ''PUT'' @ [CHR 0x0A] @ [CHR 0x0A] @ ''image/png'' @ [CHR 0x0A]
           @ ''Tue, 01 Jan 2019 00:00:00 GMT'' @ [CHR 0x0A] @ ''/mybucket/obsidian/abc.png''))
     = ''c2VjcmV0UFVUCgppbWFnZS9wbmcKVHVlLCAwMSBKYW4gMjAxOSAwMDowMDowMCBHTVQKL215YnVja2V0L29ic2lkaWFuL2FiYy5wbmc=''"
  by code_simp

lemma btoa_head_abc:
  "btoa (encode (''secret'' @ ''HEAD'' @ [CHR 0x0A] @ [CHR 0x0A] @ [CHR 0x0A]
           @ ''Thu, 01 Jan 1970 00:00:00 GMT'' @ [CHR 0x0A] @ ''/mybucket/obsidian/abc.png''))
     = ''c2VjcmV0SEVBRAoKClRodSwgMDEgSmFuIDE5NzAgMDA6MDA6MDAgR01UCi9teWJ1Y2tldC9vYnNpZGlhbi9hYmMucG5n''"
  by code_simp

text \<open>What the sample stores answer to the probe and to a PUT.\<close>

lemma empty_store_probe:
  "accessKeySecret s \<noteq> [] \<Longrightarrow>
   checkFileExists (sample_platform empty_store) s key w
     = (Inr False,
        w\<lparr>trace := trace w @ [Request (probe_of (sample_platform empty_store) s key w)]\<rparr>)"
  by (simp add: checkFileExists_eq sample_respond empty_store_def probe_of_def probe_catch_def)

lemma broken_store_probe:
  "accessKeySecret s \<noteq> [] \<Longrightarrow>
   checkFileExists (sample_platform broken_store) s key w
     = (Inr False,
        w\<lparr>trace := trace w @ [Request (probe_of (sample_platform broken_store) s key w)]\<rparr>)"
  by (simp add: checkFileExists_eq sample_respond broken_store_def probe_of_def probe_catch_def)

lemma moved_store_probe:
  "accessKeySecret s \<noteq> [] \<Longrightarrow>
   checkFileExists (sample_platform moved_store) s key w
     = (Inr False,
        w\<lparr>trace := trace w @ [Request (probe_of (sample_platform moved_store) s key w)]\<rparr>)"
  by (simp add: checkFileExists_eq sample_respond moved_store_def)

lemma full_store_probe:
  "accessKeySecret s \<noteq> [] \<Longrightarrow>
   checkFileExists (sample_platform full_store) s key w
     = (Inr True,
        w\<lparr>trace := trace w @ [Request (probe_of (sample_platform full_store) s key w)]\<rparr>)"
  by (simp add: checkFileExists_eq sample_respond full_store_def)

lemma forbidding_store_probe:
  "accessKeySecret s \<noteq> [] \<Longrightarrow>
   checkFileExists (sample_platform forbidding_store) s key w
     = (Inl (Error ''Request failed, status 403''),
        w\<lparr>trace := trace w @ [Request (probe_of (sample_platform forbidding_store) s key w)]\<rparr>)"
  by (simp add: checkFileExists_eq sample_respond forbidding_store_def probe_catch_def)

text \<open>With the secret left empty the probe is not sent, whatever the remote side is.\<close>

lemma secretless_probe:
  "checkFileExists (sample_platform remote) secretless_settings key w
     = (Inl (Error ''DataError: HMAC key data must not be empty''), w)"
  by (simp add: checkFileExists_eq secretless_fields sample_rejection probe_catch_def)

lemma empty_store_put:
  "put_operation (sample_platform empty_store) ep auth ct content w
     = (Inr (),
        w\<lparr>trace := trace w @
           [Request \<lparr>url = ep, http_method = ''PUT'',
              headers = [(''Authorization'', auth), (''Date'', toUTCString (now w)),
                         (''Content-Type'', ct)],
              body = Some content\<rparr>]\<rparr>)"
  by (simp add: put_operation_status [of "sample_platform empty_store" 200]
        sample_respond empty_store_def)

lemma broken_store_put:
  "fst (put_operation (sample_platform broken_store) ep auth ct content w)
     = Inl (Error ''Request failed, status 500'')"
  by (simp add: put_operation_rejected [of "sample_platform broken_store"
                                            "Error ''Request failed, status 500''"]
        sample_respond broken_store_def)

lemma moved_store_put:
  "fst (put_operation (sample_platform moved_store) ep auth ct content w)
     = Inl (Error (msg_upload_failed @ '': HTTP 301''))"
  by (simp add: put_operation_status [of "sample_platform moved_store" 301]
        sample_respond moved_store_def show_nat.simps digit_def)

text \<open>Runs on the sample stores.\<close>

lemma not_image_README: "\<not> is_image_ext ''README''"
  by code_simp

lemma readme_run:
  "map (header ''Content-Type'')
     (put_requests (trace (snd (uploadWithCompression (sample_platform empty_store)
        sample_settings [1, 2, 3] ''README'' None epoch))))
   = [Some ''image/README'']"
  apply (simp add: uploadWithCompression_def exist_check_wanted_def empty_store_probe
           compress_step_def not_image_README sample_fields generateSignature_eq
           ext_of_samples Let_def split_beta retry_first_success empty_store_put epoch_def)
  apply (simp add: put_requests_def probe_of_def)
  apply (simp add: header_def)
  done

lemma readme_moved_run:
  "fst (uploadWithCompression (sample_platform moved_store) sample_settings [1, 2, 3]
          ''README'' None epoch)
   = Inl (Error (msg_upload_failed @ '': HTTP 301''))"
  by (simp add: uploadWithCompression_def exist_check_wanted_def moved_store_probe
        compress_step_def not_image_README sample_fields generateSignature_eq
        ext_of_samples Let_def split_beta put_retry_all_fail [OF moved_store_put])

lemma forbidden_run:
  "fst (uploadWithCompression (sample_platform forbidding_store) sample_settings [1, 2, 3]
          ''a.png'' None epoch)
   = Inl (Error ''Request failed, status 403'')"
  by (simp add: uploadWithCompression_def exist_check_wanted_def forbidding_store_probe
        sample_fields Let_def)

lemma secretless_run:
  "uploadWithCompression (sample_platform remote) secretless_settings [1, 2, 3] ''a.png''
     None epoch
   = (Inl (Error ''DataError: HMAC key data must not be empty''), epoch)"
  by (simp add: uploadWithCompression_def exist_check_wanted_def secretless_probe Let_def)

lemma secretless_unchecked_run:
  "uploadWithCompression (sample_platform remote) secretless_settings [1, 2, 3] ''README''
     (Some \<lparr>onProgress = None, skipExistCheck = Some True\<rparr>) epoch
   = (Inl (Error ''DataError: HMAC key data must not be empty''), epoch)"
  by (simp add: uploadWithCompression_def exist_check_wanted_def compress_step_def
        not_image_README ext_of_samples generateSignature_eq secretless_fields
        sample_rejection Let_def)

text \<open>The signatures of the sample platform on the sample settings.\<close>

lemma sample_put_signature:
  "signature_of (sample_platform remote)
     (upload_stringToSign sample_settings ''image/png'' ''Thu, 01 Jan 1970 00:00:00 GMT''
        ''obsidian/0000000000000000000000000000000000000000000000000000000000000000.png'')
     ''secret''
   = ''c2VjcmV0UFVUCgppbWFnZS9wbmcKVGh1LCAwMSBKYW4gMTk3MCAwMDowMDowMCBHTVQKL215YnVja2V0L29ic2lkaWFuLzAwMDAwMDAwMDAwMDAwMDAwMDAwMDAwMDAwMDAwMDAwMDAwMDAwMDAwMDAwMDAwMDAwMDAwMDAwMDAwMDAwMDAucG5n''"
  "signature_of (sample_platform remote)
     (upload_stringToSign sample_settings ''image/png'' ''Thu, 01 Jan 1970 00:00:01 GMT''
        ''obsidian/0000000000000000000000000000000000000000000000000000000000000000.png'')
     ''secret''
   = ''c2VjcmV0UFVUCgppbWFnZS9wbmcKVGh1LCAwMSBKYW4gMTk3MCAwMDowMDowMSBHTVQKL215YnVja2V0L29ic2lkaWFuLzAwMDAwMDAwMDAwMDAwMDAwMDAwMDAwMDAwMDAwMDAwMDAwMDAwMDAwMDAwMDAwMDAwMDAwMDAwMDAwMDAwMDAucG5n''"
  "signature_of (sample_platform remote)
     (upload_stringToSign sample_settings ''image/png'' ''Tue, 01 Jan 2019 00:00:00 GMT''
        ''obsidian/abc.png'')
     ''secret''
   = ''c2VjcmV0UFVUCgppbWFnZS9wbmcKVHVlLCAwMSBKYW4gMjAxOSAwMDowMDowMCBHTVQKL215YnVja2V0L29ic2lkaWFuL2FiYy5wbmc=''"
  using btoa_put_at_0 btoa_put_at_1 btoa_put_abc
  by (simp_all add: sample_signature upload_stringToSign_def sample_fields nl_def)

lemma sample_probe_signature:
  "signature_of (sample_platform remote)
     (probe_stringToSign sample_settings ''Thu, 01 Jan 1970 00:00:00 GMT'' ''obsidian/abc.png'')
     ''secret''
   = ''c2VjcmV0SEVBRAoKClRodSwgMDEgSmFuIDE5NzAgMDA6MDA6MDAgR01UCi9teWJ1Y2tldC9vYnNpZGlhbi9hYmMucG5n''"
  using btoa_head_abc
  by (simp add: sample_signature probe_stringToSign_def sample_fields nl_def)

lemma png_run:
  "map (header ''Authorization'')
     (put_requests (trace (snd (uploadWithCompression (sample_platform empty_store)
        sample_settings [1, 2, 3] ''a.png'' None epoch))))
   = [Some ''OSS id:c2VjcmV0UFVUCgppbWFnZS9wbmcKVGh1LCAwMSBKYW4gMTk3MCAwMDowMDowMCBHTVQKL215YnVja2V0L29ic2lkaWFuLzAwMDAwMDAwMDAwMDAwMDAwMDAwMDAwMDAwMDAwMDAwMDAwMDAwMDAwMDAwMDAwMDAwMDAwMDAwMDAwMDAwMDAucG5n'']"
  apply (simp add: uploadWithCompression_def exist_check_wanted_def empty_store_probe
           sample_compress_step sample_fields generateSignature_eq sample_key
           ext_of_samples Let_def split_beta retry_first_success empty_store_put epoch_def
           utc_samples sample_put_signature)
  apply (simp add: put_requests_def probe_of_def)
  apply (simp add: header_def)
  done

text \<open>The bytes of a string and the length of a base-64 text.\<close>

lemma of_char_less_256: "(of_char c :: nat) < 256"
  by (cases c) (simp add: of_char_Char horner_sum_bit_eq_take_bit take_bit_eq_mod)

lemma unat_of_nat_char: "unat (of_nat (of_char c) :: 8 word) = of_char c"
  using of_char_less_256 [of c] by (simp add: unat_of_nat)

lemma btoa_length: "length (btoa m) = 4 * ((length m + 2) div 3)"
proof (induction m rule: btoa.induct)
  case (4 a b c rest)
  have "(5 + length rest) div 3 = Suc ((length rest + 2) div 3)"
    by presburger
  with 4 show ?case by simp
qed simp_all

section \<open>Claims\<close>

text \<open>
  C3. Retry with backoff. When the operation fails on its first two attempts, the second
  attempt starts one second (1000 ms, the time unit of the backoff) after the first failed
  and the third two seconds after the second failed. If the third attempt succeeds, its
  value is returned and nothing more happens: three attempts, two timers, of 1000 and 2000 ms.
  If the third attempt fails too, a fourth is made after a timer of 4000 ms, and if that one
  fails the call fails in the world the fourth attempt left, with no further attempt or
  timer: four attempts, one initial and three retries.
\<close>

theorem retry_backoff_schedule:
  assumes a1: "operation w0 = (Inl e1, w1)"
      and a2: "operation (setTimeout 1000 w1) = (Inl e2, w2)"
  shows "(operation (setTimeout 2000 w2) = (Inr v, w3) \<longrightarrow>
            retryOperation operation 0 w0 = (Inr v, w3))
       \<and> (operation (setTimeout 2000 w2) = (Inl e3, w3) \<and>
          operation (setTimeout 4000 w3) = (Inl e4, w4) \<longrightarrow>
            retryOperation operation 0 w0 = (Inl e4, w4))"
proof (intro conjI impI)
  assume "operation (setTimeout 2000 w2) = (Inr v, w3)"
  then show "retryOperation operation 0 w0 = (Inr v, w3)"
    by (simp add: retry_two_failures [OF a1 a2] retry_ok)
next
  assume "operation (setTimeout 2000 w2) = (Inl e3, w3) \<and>
          operation (setTimeout 4000 w3) = (Inl e4, w4)"
  then show "retryOperation operation 0 w0 = (Inl e4, w4)"
    using retry_four_failures [OF a1 a2] by blast
qed

theorem retry_backoff_schedule_witness:
  "retryOperation flaky_transfer 0 epoch
     = (Inr ''stored'', \<lparr>now = 3000, trace = [Timer 1000, Timer 2000]\<rparr>)
   \<and> retryOperation dead_transfer 0 epoch
     = (Inl (Error ''failed at 7000''),
        \<lparr>now = 7000, trace = [Timer 1000, Timer 2000, Timer 4000]\<rparr>)"
proof
  show "retryOperation flaky_transfer 0 epoch
          = (Inr ''stored'', \<lparr>now = 3000, trace = [Timer 1000, Timer 2000]\<rparr>)"
    using retry_backoff_schedule
            [of flaky_transfer epoch "Error ''failed at 0''" epoch
                "Error ''failed at 1000''" "\<lparr>now = 1000, trace = [Timer 1000]\<rparr>"
                "''stored''" "\<lparr>now = 3000, trace = [Timer 1000, Timer 2000]\<rparr>"]
    by (simp add: flaky_transfer_def epoch_def setTimeout_def show_nat.simps digit_def)
  show "retryOperation dead_transfer 0 epoch
          = (Inl (Error ''failed at 7000''),
             \<lparr>now = 7000, trace = [Timer 1000, Timer 2000, Timer 4000]\<rparr>)"
    using retry_backoff_schedule
            [of dead_transfer epoch "Error ''failed at 0''" epoch
                "Error ''failed at 1000''" "\<lparr>now = 1000, trace = [Timer 1000]\<rparr>"
                _ "\<lparr>now = 3000, trace = [Timer 1000, Timer 2000]\<rparr>"
                "Error ''failed at 3000''" "Error ''failed at 7000''"
                "\<lparr>now = 7000, trace = [Timer 1000, Timer 2000, Timer 4000]\<rparr>"]
    by (simp add: dead_transfer_def epoch_def setTimeout_def show_nat.simps digit_def)
qed

text \<open>
  C7, as stated, fails. The claim says that after the last failed attempt the caller
  gets the last error wrapped in an error of a kind of its own, not the error itself. On an
  operation that always fails, with the time of the attempt in the message, the caller
  gets exactly the value the fourth attempt threw.
\<close>

theorem retry_wrapping_counterexample:
  "fst (retryOperation dead_transfer 0 epoch) = Inl (Error ''failed at 7000'')
   \<and> fst (dead_transfer \<lparr>now = 7000, trace = [Timer 1000, Timer 2000, Timer 4000]\<rparr>)
       = Inl (Error ''failed at 7000'')"
  by (simp add: retryOperation.simps dead_transfer_def epoch_def setTimeout_def maxRetries_def
        show_nat.simps digit_def)

text \<open>
  C7, amended. When the operation fails on all four attempts, the error surfaced to the
  caller is the very value the last attempt threw, unchanged and unwrapped.
\<close>

theorem retry_exhausted_rethrows:
  assumes "operation w0 = (Inl e1, w1)"
      and "operation (setTimeout 1000 w1) = (Inl e2, w2)"
      and "operation (setTimeout 2000 w2) = (Inl e3, w3)"
      and "operation (setTimeout 4000 w3) = (Inl e4, w4)"
  shows "fst (retryOperation operation 0 w0) = Inl e4"
  by (simp add: retry_four_failures [OF assms])

theorem retry_exhausted_rethrows_witness:
  "fst (retryOperation dead_transfer 0 epoch) = Inl (Error ''failed at 7000'')"
  using retry_exhausted_rethrows
          [of dead_transfer epoch "Error ''failed at 0''" epoch
              "Error ''failed at 1000''" "\<lparr>now = 1000, trace = [Timer 1000]\<rparr>"
              "Error ''failed at 3000''" "\<lparr>now = 3000, trace = [Timer 1000, Timer 2000]\<rparr>"
              "Error ''failed at 7000''"
              "\<lparr>now = 7000, trace = [Timer 1000, Timer 2000, Timer 4000]\<rparr>"]
  by (simp add: dead_transfer_def epoch_def setTimeout_def show_nat.simps digit_def)

text \<open>
  C10. A file name without a dot, and not empty, is its own suffix: the key is the prefix,
  the digest, a dot and the whole file name, and every PUT request of the upload carries the
  content type \<open>image/\<close> followed by the file name. The derivation of the key cannot
  fail: when the upload fails, its error is the refusal to import an empty access key
  secret, an error of the image compressor, a rejection by the remote side, or the error
  the upload makes of a status other than 200.
\<close>

theorem upload_name_without_dot:
  assumes "CHR ''.'' \<notin> set fileName" and "fileName \<noteq> []"
  shows "fileExt_of fileName = fileName
       \<and> ossPath_of plat s content fileName
           = path s @ calculateHash plat content @ ''.'' @ fileName
       \<and> (\<exists>evs. trace (snd (uploadWithCompression plat s content fileName options w))
                   = trace w @ evs
                 \<and> (\<forall>r \<in> set (put_requests evs).
                       header ''Content-Type'' r = Some (''image/'' @ fileName)))
       \<and> (\<forall>e. fst (uploadWithCompression plat s content fileName options w) = Inl e \<longrightarrow>
                (accessKeySecret s = [] \<and> e = importKey_rejection plat)
              \<or> (enableCompression s \<and> is_image_ext fileName
                  \<and> (\<exists>opts. imageCompression plat content fileName
                                (blob_type (''image/'' @ fileName)) opts = Inl e))
              \<or> (\<exists>w' r. respond plat w' r = Rejected e)
              \<or> (\<exists>st. st \<noteq> 200
                       \<and> e = Error (msg_upload_failed @ '': HTTP '' @ show_nat st)))"
proof -
  have ext: "fileExt_of fileName = fileName"
    using assms(1) by (rule fileExt_of_no_dot)
  have key: "ossPath_of plat s content fileName
               = path s @ calculateHash plat content @ ''.'' @ fileName"
    by (simp add: ossPath_of_def Let_def ext)
  from upload_put_requests [of plat s content fileName options w]
  have puts: "\<exists>evs. trace (snd (uploadWithCompression plat s content fileName options w))
                   = trace w @ evs
                 \<and> (\<forall>r \<in> set (put_requests evs).
                       header ''Content-Type'' r = Some (''image/'' @ fileName))"
    unfolding ext by blast
  have err: "\<forall>e. fst (uploadWithCompression plat s content fileName options w) = Inl e \<longrightarrow>
                (accessKeySecret s = [] \<and> e = importKey_rejection plat)
              \<or> (enableCompression s \<and> is_image_ext fileName
                  \<and> (\<exists>opts. imageCompression plat content fileName
                                (blob_type (''image/'' @ fileName)) opts = Inl e))
              \<or> (\<exists>w' r. respond plat w' r = Rejected e)
              \<or> (\<exists>st. st \<noteq> 200
                       \<and> e = Error (msg_upload_failed @ '': HTTP '' @ show_nat st))"
    using upload_error_origin [of plat s content fileName options w] unfolding ext by blast
  from ext key puts err show ?thesis by blast
qed

theorem upload_name_without_dot_witness:
  "CHR ''.'' \<notin> set ''README'' \<and> ''README'' \<noteq> []
   \<and> ossPath_of (sample_platform empty_store) sample_settings [1, 2, 3] ''README''
       = ''obsidian/0000000000000000000000000000000000000000000000000000000000000000.README''
   \<and> map (header ''Content-Type'')
         (put_requests (trace (snd (uploadWithCompression (sample_platform empty_store)
            sample_settings [1, 2, 3] ''README'' None epoch))))
       = [Some ''image/README'']
   \<and> fst (uploadWithCompression (sample_platform moved_store) sample_settings [1, 2, 3]
            ''README'' None epoch)
       = Inl (Error (msg_upload_failed @ '': HTTP 301''))
   \<and> uploadWithCompression (sample_platform empty_store) secretless_settings [1, 2, 3]
        ''README'' (Some \<lparr>onProgress = None, skipExistCheck = Some True\<rparr>) epoch
       = (Inl (Error ''DataError: HMAC key data must not be empty''), epoch)"
proof -
  have h1: "CHR ''.'' \<notin> set ''README''" and h2: "''README'' \<noteq> []"
    by simp_all
  from upload_name_without_dot
         [OF h1 h2, of "sample_platform empty_store" sample_settings "[1, 2, 3]" None epoch]
  have "ossPath_of (sample_platform empty_store) sample_settings [1, 2, 3] ''README''
          = path sample_settings @ calculateHash (sample_platform empty_store) [1, 2, 3]
              @ ''.'' @ ''README''"
    by blast
  with h1 h2 show ?thesis
    by (simp add: sample_hash sample_fields readme_run readme_moved_run
          secretless_unchecked_run)
qed

text \<open>
  C9, as stated, fails. The claim says the suffix in the key is in lower case also when
  the file name has it in upper case. For \<open>photo.PNG\<close> the key of the code ends in
  \<open>.PNG\<close>, the key of the specification in \<open>.png\<close>.
\<close>

theorem storage_key_case_counterexample:
  "ossPath_of (sample_platform empty_store) sample_settings [1, 2, 3] ''photo.PNG''
     = ''obsidian/0000000000000000000000000000000000000000000000000000000000000000.PNG''
   \<and> spec_storageKey (sample_platform empty_store) sample_settings [1, 2, 3] ''photo.PNG''
     = ''obsidian/0000000000000000000000000000000000000000000000000000000000000000.png''
   \<and> ossPath_of (sample_platform empty_store) sample_settings [1, 2, 3] ''photo.PNG''
     \<noteq> spec_storageKey (sample_platform empty_store) sample_settings [1, 2, 3] ''photo.PNG''"
  by (simp add: ossPath_of_def spec_storageKey_def Let_def sample_hash sample_settings_def
        DEFAULT_SETTINGS_def ext_of_samples lower_of_samples)

text \<open>
  C9, amended. The key is the prefix, the digest of the bytes given as lower-case
  hexadecimal digits (two for each byte of the digest), a dot, and what follows the last dot
  of the file name exactly as it is written there, upper case kept. It is the key of the
  specification precisely when that suffix has no upper-case letter.
\<close>

theorem storage_key_form:
  "ossPath_of plat s content fileName
     = path s @ calculateHash plat content @ ''.''
         @ rev (takeWhile (\<lambda>c. c \<noteq> CHR ''.'') (rev fileName))
   \<and> calculateHash plat content = concat (map hex2 (subtle_digest plat SHA_256 content))
   \<and> set (calculateHash plat content) \<subseteq> set ''0123456789abcdef''
   \<and> length (calculateHash plat content) = 2 * length (subtle_digest plat SHA_256 content)
   \<and> (ossPath_of plat s content fileName = spec_storageKey plat s content fileName
        \<longleftrightarrow> toLowerCase (fileExt_of fileName) = fileExt_of fileName)"
  using calculateHash_hex [of plat content]
  by (simp add: ossPath_of_def spec_storageKey_def Let_def fileExt_of_suffix
        calculateHash_length)
     (simp add: calculateHash_def eq_commute)

theorem storage_key_form_witness:
  "ossPath_of (sample_platform empty_store) sample_settings [1, 2, 3] ''photo.png''
     = spec_storageKey (sample_platform empty_store) sample_settings [1, 2, 3] ''photo.png''
   \<and> set (calculateHash (sample_platform empty_store) [1, 2, 3]) \<subseteq> set ''0123456789abcdef''"
proof -
  from storage_key_form
         [of "sample_platform empty_store" sample_settings "[1, 2, 3]" "''photo.png''"]
  have "(ossPath_of (sample_platform empty_store) sample_settings [1, 2, 3] ''photo.png''
           = spec_storageKey (sample_platform empty_store) sample_settings [1, 2, 3] ''photo.png'')
        \<longleftrightarrow> toLowerCase (fileExt_of ''photo.png'') = fileExt_of ''photo.png''"
    and "set (calculateHash (sample_platform empty_store) [1, 2, 3]) \<subseteq> set ''0123456789abcdef''"
    by blast+
  then show ?thesis
    by (simp add: ext_of_samples lower_of_samples)
qed

text \<open>
  C5. Short cut on an object that is present. When the existence check is not skipped and
  reports the object present, the upload returns the address of the key at once. The world it
  leaves is the one the check left: the trace has grown by the HEAD probe alone, which has
  no body, so no compression and no PUT request have happened.
\<close>

theorem present_object_short_cut:
  assumes "exist_check_wanted options"
      and "fst (checkFileExists plat s (ossPath_of plat s content fileName) w) = Inr True"
  shows "fst (uploadWithCompression plat s content fileName options w)
           = Inr (baseUrl_of s @ ''/'' @ ossPath_of plat s content fileName)
       \<and> trace (snd (uploadWithCompression plat s content fileName options w))
           = trace w @ [Request (probe_of plat s (ossPath_of plat s content fileName) w)]
       \<and> http_method (probe_of plat s (ossPath_of plat s content fileName) w) = ''HEAD''
       \<and> body (probe_of plat s (ossPath_of plat s content fileName) w) = None
       \<and> put_requests (trace (snd (uploadWithCompression plat s content fileName options w)))
           = put_requests (trace w)
       \<and> compressions_of (trace (snd (uploadWithCompression plat s content fileName options w)))
           = compressions_of (trace w)"
proof -
  from assms(2) have signed: "accessKeySecret s \<noteq> []"
    by (rule checkFileExists_present_signed)
  show ?thesis
    by (simp add: upload_present [OF assms] checkFileExists_probe [OF signed] probe_of_def
          put_requests_append compressions_of_append)
       (simp add: put_requests_def)
qed

theorem present_object_short_cut_witness:
  "fst (uploadWithCompression (sample_platform full_store) sample_settings [1, 2, 3] ''a.png''
          None epoch)
     = Inr ''https://mybucket.oss-cn-hangzhou.aliyuncs.com/obsidian/0000000000000000000000000000000000000000000000000000000000000000.png''
   \<and> put_requests (trace (snd (uploadWithCompression (sample_platform full_store)
          sample_settings [1, 2, 3] ''a.png'' None epoch))) = []
   \<and> compressions_of (trace (snd (uploadWithCompression (sample_platform full_store)
          sample_settings [1, 2, 3] ''a.png'' None epoch))) = []"
proof -
  have h1: "exist_check_wanted None"
    by (simp add: exist_check_wanted_def)
  have h2: "fst (checkFileExists (sample_platform full_store) sample_settings
                   (ossPath_of (sample_platform full_store) sample_settings [1, 2, 3] ''a.png'')
                   epoch) = Inr True"
    by (simp add: full_store_probe sample_fields)
  from present_object_short_cut [OF h1 h2]
  show ?thesis
    by (simp add: sample_key sample_fields baseUrl_of_def epoch_def put_requests_def)
qed

text \<open>
  C6, as stated, fails. The claim says the check answers false exactly on the not-found
  signal and hands every other response that is not a success to the caller as an error.
  A remote side that answers the probe with status 301, a redirect, makes the check answer
  false: no error reaches the caller, and the upload goes on to send its PUT requests.
\<close>

theorem probe_redirect_counterexample:
  "moved_store epoch
     (probe_of (sample_platform moved_store) sample_settings ''obsidian/ab.png'' epoch)
     = Resolved 301
   \<and> fst (checkFileExists (sample_platform moved_store) sample_settings ''obsidian/ab.png''
            epoch) = Inr False
   \<and> map http_method
         (requests_of (trace (snd (uploadWithCompression (sample_platform moved_store)
            sample_settings [1, 2, 3] ''a.png'' None epoch))))
       = [''HEAD'', ''PUT'', ''PUT'', ''PUT'', ''PUT'']"
proof (intro conjI)
  show "moved_store epoch
     (probe_of (sample_platform moved_store) sample_settings ''obsidian/ab.png'' epoch)
     = Resolved 301"
    by (simp add: moved_store_def)
  show "fst (checkFileExists (sample_platform moved_store) sample_settings ''obsidian/ab.png''
            epoch) = Inr False"
    by (simp add: moved_store_probe sample_fields)
  show "map http_method
         (requests_of (trace (snd (uploadWithCompression (sample_platform moved_store)
            sample_settings [1, 2, 3] ''a.png'' None epoch))))
       = [''HEAD'', ''PUT'', ''PUT'', ''PUT'', ''PUT'']"
    apply (simp add: uploadWithCompression_def exist_check_wanted_def moved_store_probe
             sample_compress_step sample_fields generateSignature_eq ext_of_samples Let_def
             split_beta sample_key)
    apply (simp add: put_retry_all_fail [OF moved_store_put] epoch_def)
    apply (simp add: probe_of_def)
    done
qed

text \<open>
  C6, amended. The probe is a HEAD request without body whose Date header is the
  timestamp in the string that is signed; that string has the five lines HEAD, empty, empty,
  timestamp and /bucket/key, and the probe is signed like an upload, with the access key
  secret as key. When the secret is not empty the probe is sent, and the check answers true
  exactly when the response has status 200; it answers false when the response has any other
  status, or when the request is rejected with an Error whose message contains 404; every
  other rejection is thrown on to the caller unchanged. When the secret is empty the key
  cannot be imported: no probe is sent, and the exception of the import is treated like a
  rejection, answered by false if its message contains 404 and thrown on otherwise. An
  upload whose check threw ends with that error in the world the check left: the probe, if
  it was sent, and nothing else.
\<close>

theorem probe_outcomes:
  "http_method (probe_of plat s key w) = ''HEAD''
   \<and> body (probe_of plat s key w) = None
   \<and> header ''Date'' (probe_of plat s key w) = Some (toUTCString (now w))
   \<and> header ''Authorization'' (probe_of plat s key w)
       = Some (''OSS '' @ accessKeyId s @ '':'' @
               btoa (subtle_sign plat SHA_1 (encode (accessKeySecret s))
                       (encode (''HEAD'' @ nl @ '''' @ nl @ '''' @ nl @ toUTCString (now w) @ nl
                                  @ ''/'' @ bucket s @ ''/'' @ key))))
   \<and> (CHR 0x0A \<notin> set (date @ bucket s @ key) \<longrightarrow>
        split_str (CHR 0x0A)
          (''HEAD'' @ nl @ '''' @ nl @ '''' @ nl @ date @ nl @ ''/'' @ bucket s @ ''/'' @ key)
          = [''HEAD'', '''', '''', date, ''/'' @ bucket s @ ''/'' @ key])
   \<and> (accessKeySecret s \<noteq> [] \<longrightarrow>
        snd (checkFileExists plat s key w)
          = w\<lparr>trace := trace w @ [Request (probe_of plat s key w)]\<rparr>
        \<and> (fst (checkFileExists plat s key w) = Inr True
             \<longleftrightarrow> respond plat w (probe_of plat s key w) = Resolved 200)
        \<and> (fst (checkFileExists plat s key w) = Inr False
             \<longleftrightarrow> (\<exists>st. respond plat w (probe_of plat s key w) = Resolved st \<and> st \<noteq> 200)
               \<or> (\<exists>m. respond plat w (probe_of plat s key w) = Rejected (Error m)
                      \<and> includes_str m ''404''))
        \<and> (\<forall>e. fst (checkFileExists plat s key w) = Inl e
             \<longleftrightarrow> respond plat w (probe_of plat s key w) = Rejected e
               \<and> (\<forall>m. e = Error m \<longrightarrow> \<not> includes_str m ''404'')))
   \<and> (accessKeySecret s = [] \<longrightarrow>
        snd (checkFileExists plat s key w) = w
        \<and> fst (checkFileExists plat s key w) \<noteq> Inr True
        \<and> (fst (checkFileExists plat s key w) = Inr False
             \<longleftrightarrow> (\<exists>m. importKey_rejection plat = Error m \<and> includes_str m ''404''))
        \<and> (\<forall>e. fst (checkFileExists plat s key w) = Inl e
             \<longleftrightarrow> e = importKey_rejection plat
               \<and> (\<forall>m. e = Error m \<longrightarrow> \<not> includes_str m ''404'')))
   \<and> (\<forall>e. exist_check_wanted options
          \<and> fst (checkFileExists plat s (ossPath_of plat s content fileName) w) = Inl e
        \<longrightarrow> uploadWithCompression plat s content fileName options w
              = (Inl e,
                 if accessKeySecret s = [] then w
                 else w\<lparr>trace := trace w @
                        [Request (probe_of plat s (ossPath_of plat s content fileName) w)]\<rparr>))"
proof (intro conjI)
  show "\<forall>e. exist_check_wanted options
          \<and> fst (checkFileExists plat s (ossPath_of plat s content fileName) w) = Inl e
        \<longrightarrow> uploadWithCompression plat s content fileName options w
              = (Inl e,
                 if accessKeySecret s = [] then w
                 else w\<lparr>trace := trace w @
                        [Request (probe_of plat s (ossPath_of plat s content fileName) w)]\<rparr>)"
    by (simp add: upload_probe_error) (simp add: checkFileExists_eq)
  show "CHR 0x0A \<notin> set (date @ bucket s @ key) \<longrightarrow>
        split_str (CHR 0x0A)
          (''HEAD'' @ nl @ '''' @ nl @ '''' @ nl @ date @ nl @ ''/'' @ bucket s @ ''/'' @ key)
          = [''HEAD'', '''', '''', date, ''/'' @ bucket s @ ''/'' @ key]"
  proof
    assume "CHR 0x0A \<notin> set (date @ bucket s @ key)"
    then have "CHR 0x0A \<notin> set (''HEAD'' @ [] @ [] @ date @ (''/'' @ bucket s @ ''/'' @ key))"
      by simp
    from five_lines [OF this] show "split_str (CHR 0x0A)
          (''HEAD'' @ nl @ '''' @ nl @ '''' @ nl @ date @ nl @ ''/'' @ bucket s @ ''/'' @ key)
          = [''HEAD'', '''', '''', date, ''/'' @ bucket s @ ''/'' @ key]"
      by simp
  qed
  show "accessKeySecret s \<noteq> [] \<longrightarrow>
        snd (checkFileExists plat s key w)
          = w\<lparr>trace := trace w @ [Request (probe_of plat s key w)]\<rparr>
        \<and> (fst (checkFileExists plat s key w) = Inr True
             \<longleftrightarrow> respond plat w (probe_of plat s key w) = Resolved 200)
        \<and> (fst (checkFileExists plat s key w) = Inr False
             \<longleftrightarrow> (\<exists>st. respond plat w (probe_of plat s key w) = Resolved st \<and> st \<noteq> 200)
               \<or> (\<exists>m. respond plat w (probe_of plat s key w) = Rejected (Error m)
                      \<and> includes_str m ''404''))
        \<and> (\<forall>e. fst (checkFileExists plat s key w) = Inl e
             \<longleftrightarrow> respond plat w (probe_of plat s key w) = Rejected e
               \<and> (\<forall>m. e = Error m \<longrightarrow> \<not> includes_str m ''404''))"
    by (auto simp: checkFileExists_eq probe_catch_def
             split: request_outcome.splits thrown.splits)
  show "accessKeySecret s = [] \<longrightarrow>
        snd (checkFileExists plat s key w) = w
        \<and> fst (checkFileExists plat s key w) \<noteq> Inr True
        \<and> (fst (checkFileExists plat s key w) = Inr False
             \<longleftrightarrow> (\<exists>m. importKey_rejection plat = Error m \<and> includes_str m ''404''))
        \<and> (\<forall>e. fst (checkFileExists plat s key w) = Inl e
             \<longleftrightarrow> e = importKey_rejection plat
               \<and> (\<forall>m. e = Error m \<longrightarrow> \<not> includes_str m ''404''))"
    by (auto simp: checkFileExists_eq probe_catch_def split: thrown.splits)
qed (simp_all add: probe_of_def header_def signature_of_def probe_stringToSign_def)

theorem probe_outcomes_witness:
  "split_str (CHR 0x0A)
     (''HEAD'' @ nl @ '''' @ nl @ '''' @ nl @ ''Tue, 01 Jan 2019 00:00:00 GMT'' @ nl
        @ ''/'' @ ''mybucket'' @ ''/'' @ ''obsidian/abc.png'')
     = [''HEAD'', '''', '''', ''Tue, 01 Jan 2019 00:00:00 GMT'', ''/mybucket/obsidian/abc.png'']
   \<and> header ''Authorization''
         (probe_of (sample_platform empty_store) sample_settings ''obsidian/abc.png'' epoch)
       = Some ''OSS id:c2VjcmV0SEVBRAoKClRodSwgMDEgSmFuIDE5NzAgMDA6MDA6MDAgR01UCi9teWJ1Y2tldC9vYnNpZGlhbi9hYmMucG5n''
   \<and> fst (checkFileExists (sample_platform empty_store) sample_settings ''obsidian/abc.png''
            epoch) = Inr False
   \<and> fst (checkFileExists (sample_platform full_store) sample_settings ''obsidian/abc.png''
            epoch) = Inr True
   \<and> fst (checkFileExists (sample_platform forbidding_store) sample_settings
            ''obsidian/abc.png'' epoch) = Inl (Error ''Request failed, status 403'')
   \<and> fst (uploadWithCompression (sample_platform forbidding_store) sample_settings [1, 2, 3]
            ''a.png'' None epoch) = Inl (Error ''Request failed, status 403'')
   \<and> checkFileExists (sample_platform full_store) secretless_settings ''obsidian/abc.png''
         epoch
       = (Inl (Error ''DataError: HMAC key data must not be empty''), epoch)
   \<and> uploadWithCompression (sample_platform full_store) secretless_settings [1, 2, 3]
         ''a.png'' None epoch
       = (Inl (Error ''DataError: HMAC key data must not be empty''), epoch)"
proof -
  note empty = probe_outcomes [of "sample_platform empty_store" sample_settings
                 "''obsidian/abc.png''" epoch "''Tue, 01 Jan 2019 00:00:00 GMT''"]
  note full = probe_outcomes [of "sample_platform full_store" sample_settings
                 "''obsidian/abc.png''" epoch "''Tue, 01 Jan 2019 00:00:00 GMT''"]
  note forb = probe_outcomes [of "sample_platform forbidding_store" sample_settings
                 "''obsidian/abc.png''" epoch "''Tue, 01 Jan 2019 00:00:00 GMT''"]
  note bare = probe_outcomes [of "sample_platform full_store" secretless_settings
                 "''obsidian/abc.png''" epoch "''Tue, 01 Jan 2019 00:00:00 GMT''"]
  have "split_str (CHR 0x0A)
     (''HEAD'' @ nl @ '''' @ nl @ '''' @ nl @ ''Tue, 01 Jan 2019 00:00:00 GMT'' @ nl
        @ ''/'' @ ''mybucket'' @ ''/'' @ ''obsidian/abc.png'')
     = [''HEAD'', '''', '''', ''Tue, 01 Jan 2019 00:00:00 GMT'', ''/mybucket/obsidian/abc.png'']"
    using empty by (simp add: sample_fields)
  moreover have "header ''Authorization''
         (probe_of (sample_platform empty_store) sample_settings ''obsidian/abc.png'' epoch)
       = Some ''OSS id:c2VjcmV0SEVBRAoKClRodSwgMDEgSmFuIDE5NzAgMDA6MDA6MDAgR01UCi9teWJ1Y2tldC9vYnNpZGlhbi9hYmMucG5n''"
    by (simp add: probe_of_def header_def epoch_def utc_samples sample_fields
          sample_probe_signature)
  moreover have "fst (checkFileExists (sample_platform empty_store) sample_settings
                        ''obsidian/abc.png'' epoch) = Inr False"
    using empty by (simp add: sample_respond empty_store_def probe_of_def sample_fields)
  moreover have "fst (checkFileExists (sample_platform full_store) sample_settings
                        ''obsidian/abc.png'' epoch) = Inr True"
    using full by (simp add: sample_respond full_store_def sample_fields)
  moreover have "fst (checkFileExists (sample_platform forbidding_store) sample_settings
            ''obsidian/abc.png'' epoch) = Inl (Error ''Request failed, status 403'')"
    using forb by (simp add: sample_respond forbidding_store_def sample_fields)
  moreover have "checkFileExists (sample_platform full_store) secretless_settings
         ''obsidian/abc.png'' epoch
       = (Inl (Error ''DataError: HMAC key data must not be empty''), epoch)"
    using bare by (simp add: prod_eq_iff secretless_fields sample_rejection)
  ultimately show ?thesis by (simp add: forbidden_run secretless_run)
qed

text \<open>
  C4. The signature of an upload. When the access key secret is not empty,
  \<open>generateSignature\<close> returns the authorization made of the scheme name OSS, a space,
  the access key id, a colon and the signature. The signature is the base-64 text of the
  HMAC, with the hash SHA-1 of 160 bits and the bytes of the access key secret as key, of
  the bytes of the string to sign. That string is PUT, an empty line for the content MD5,
  the content type, the timestamp of the clock in the form of \<open>toUTCString\<close> and
  /bucket/key, with one newline between each two. The bytes of a string are its characters
  one by one, and the base-64 text is that of RFC 4648, four characters for every three
  bytes with padding. Every PUT request of an upload carries such an authorization, for its
  own content type and key. When the secret is empty there is no signature: the import of
  the key is refused and \<open>generateSignature\<close> throws that refusal.
\<close>

theorem upload_signature_form:
  "(accessKeySecret s \<noteq> [] \<longrightarrow>
      generateSignature plat s key ct w
        = Inr (''OSS '' @ accessKeyId s @ '':'' @
                 btoa (subtle_sign plat SHA_1 (encode (accessKeySecret s))
                         (encode (''PUT'' @ nl @ '''' @ nl @ ct @ nl @ toUTCString (now w) @ nl
                                    @ ''/'' @ bucket s @ ''/'' @ key))),
               ''https://'' @ bucket s @ ''.'' @ region s @ ''.aliyuncs.com/'' @ key))
   \<and> (accessKeySecret s = [] \<longrightarrow>
        generateSignature plat s key ct w = Inl (importKey_rejection plat))
   \<and> (CHR 0x0A \<notin> set (ct @ date @ bucket s @ key) \<longrightarrow>
        split_str (CHR 0x0A)
          (''PUT'' @ nl @ '''' @ nl @ ct @ nl @ date @ nl @ ''/'' @ bucket s @ ''/'' @ key)
          = [''PUT'', '''', ct, date, ''/'' @ bucket s @ ''/'' @ key])
   \<and> digest_bits SHA_1 = 160
   \<and> map unat (encode str) = map of_char str
   \<and> length (btoa m) = 4 * ((length m + 2) div 3)
   \<and> btoa (encode ''f'') = ''Zg==''
   \<and> btoa (encode ''fo'') = ''Zm8=''
   \<and> btoa (encode ''foobar'') = ''Zm9vYmFy''
   \<and> btoa [251, 255, 191] = ''+/+/''
   \<and> (\<exists>evs t. trace (snd (uploadWithCompression plat s content fileName options w))
                = trace w @ evs
              \<and> (\<forall>r \<in> set (put_requests evs).
                    header ''Authorization'' r
                      = Some (''OSS '' @ accessKeyId s @ '':'' @
                              btoa (subtle_sign plat SHA_1 (encode (accessKeySecret s))
                                      (encode (''PUT'' @ nl @ '''' @ nl
                                                 @ (''image/'' @ fileExt_of fileName) @ nl
                                                 @ toUTCString t @ nl @ ''/'' @ bucket s @ ''/''
                                                 @ ossPath_of plat s content fileName))))))"
proof (intro conjI)
  show "CHR 0x0A \<notin> set (ct @ date @ bucket s @ key) \<longrightarrow>
        split_str (CHR 0x0A)
          (''PUT'' @ nl @ '''' @ nl @ ct @ nl @ date @ nl @ ''/'' @ bucket s @ ''/'' @ key)
          = [''PUT'', '''', ct, date, ''/'' @ bucket s @ ''/'' @ key]"
  proof
    assume "CHR 0x0A \<notin> set (ct @ date @ bucket s @ key)"
    then have "CHR 0x0A \<notin> set (''PUT'' @ [] @ ct @ date @ (''/'' @ bucket s @ ''/'' @ key))"
      by simp
    from five_lines [OF this] show "split_str (CHR 0x0A)
          (''PUT'' @ nl @ '''' @ nl @ ct @ nl @ date @ nl @ ''/'' @ bucket s @ ''/'' @ key)
          = [''PUT'', '''', ct, date, ''/'' @ bucket s @ ''/'' @ key]"
      by simp
  qed
  show "map unat (encode str) = map of_char str"
    by (simp add: encode_def unat_of_nat_char)
  show "length (btoa m) = 4 * ((length m + 2) div 3)"
    by (rule btoa_length)
  show "btoa (encode ''f'') = ''Zg==''" by code_simp
  show "btoa (encode ''fo'') = ''Zm8=''" by code_simp
  show "btoa (encode ''foobar'') = ''Zm9vYmFy''" by code_simp
  show "btoa [251, 255, 191] = ''+/+/''" by code_simp
  from upload_put_requests [of plat s content fileName options w]
  obtain evs where
    "trace (snd (uploadWithCompression plat s content fileName options w)) = trace w @ evs"
    "\<forall>r \<in> set (put_requests evs).
       header ''Authorization'' r
         = Some (''OSS '' @ accessKeyId s @ '':'' @
                 signature_of plat
                   (upload_stringToSign s (''image/'' @ fileExt_of fileName)
                      (toUTCString (now w)) (ossPath_of plat s content fileName))
                   (accessKeySecret s))"
    by blast
  then show "\<exists>evs t. trace (snd (uploadWithCompression plat s content fileName options w))
                = trace w @ evs
              \<and> (\<forall>r \<in> set (put_requests evs).
                    header ''Authorization'' r
                      = Some (''OSS '' @ accessKeyId s @ '':'' @
                              btoa (subtle_sign plat SHA_1 (encode (accessKeySecret s))
                                      (encode (''PUT'' @ nl @ '''' @ nl
                                                 @ (''image/'' @ fileExt_of fileName) @ nl
                                                 @ toUTCString t @ nl @ ''/'' @ bucket s @ ''/''
                                                 @ ossPath_of plat s content fileName)))))"
    by (intro exI [of _ evs] exI [of _ "now w"])
       (simp add: signature_of_def upload_stringToSign_def)
qed (simp_all add: generateSignature_eq signature_of_def upload_stringToSign_def)

theorem upload_signature_form_witness:
  "generateSignature (sample_platform empty_store) sample_settings ''obsidian/abc.png''
     ''image/png'' \<lparr>now = 1546300800000, trace = []\<rparr>
     = Inr (''OSS id:c2VjcmV0UFVUCgppbWFnZS9wbmcKVHVlLCAwMSBKYW4gMjAxOSAwMDowMDowMCBHTVQKL215YnVja2V0L29ic2lkaWFuL2FiYy5wbmc='',
            ''https://mybucket.oss-cn-hangzhou.aliyuncs.com/obsidian/abc.png'')
   \<and> generateSignature (sample_platform empty_store) secretless_settings ''obsidian/abc.png''
       ''image/png'' \<lparr>now = 1546300800000, trace = []\<rparr>
     = Inl (Error ''DataError: HMAC key data must not be empty'')
   \<and> split_str (CHR 0x0A)
       (''PUT'' @ nl @ '''' @ nl @ ''image/png'' @ nl @ ''Tue, 01 Jan 2019 00:00:00 GMT'' @ nl
          @ ''/'' @ ''mybucket'' @ ''/'' @ ''obsidian/abc.png'')
     = [''PUT'', '''', ''image/png'', ''Tue, 01 Jan 2019 00:00:00 GMT'',
        ''/mybucket/obsidian/abc.png'']
   \<and> map (header ''Authorization'')
         (put_requests (trace (snd (uploadWithCompression (sample_platform empty_store)
            sample_settings [1, 2, 3] ''a.png'' None epoch))))
       = [Some ''OSS id:c2VjcmV0UFVUCgppbWFnZS9wbmcKVGh1LCAwMSBKYW4gMTk3MCAwMDowMDowMCBHTVQKL215YnVja2V0L29ic2lkaWFuLzAwMDAwMDAwMDAwMDAwMDAwMDAwMDAwMDAwMDAwMDAwMDAwMDAwMDAwMDAwMDAwMDAwMDAwMDAwMDAwMDAwMDAucG5n'']"
proof -
  note inst = upload_signature_form
                [of sample_settings "sample_platform empty_store" "''obsidian/abc.png''"
                    "''image/png''" "\<lparr>now = 1546300800000, trace = []\<rparr>"
                    "''Tue, 01 Jan 2019 00:00:00 GMT''"]
  note bare = upload_signature_form
                [of secretless_settings "sample_platform empty_store" "''obsidian/abc.png''"
                    "''image/png''" "\<lparr>now = 1546300800000, trace = []\<rparr>"]
  have signed: "accessKeySecret sample_settings \<noteq> []"
    by (simp add: sample_fields)
  have no_newline:
    "CHR 0x0A \<notin> set (''image/png'' @ ''Tue, 01 Jan 2019 00:00:00 GMT''
                         @ bucket sample_settings @ ''obsidian/abc.png'')"
    by (simp add: sample_fields)
  from inst [THEN conjunct1, THEN mp, OF signed]
  have "generateSignature (sample_platform empty_store) sample_settings ''obsidian/abc.png''
     ''image/png'' \<lparr>now = 1546300800000, trace = []\<rparr>
     = Inr (''OSS id:c2VjcmV0UFVUCgppbWFnZS9wbmcKVHVlLCAwMSBKYW4gMjAxOSAwMDowMDowMCBHTVQKL215YnVja2V0L29ic2lkaWFuL2FiYy5wbmc='',
            ''https://mybucket.oss-cn-hangzhou.aliyuncs.com/obsidian/abc.png'')"
    using sample_put_signature(3) [of empty_store]
    by (simp add: sample_fields utc_samples signature_of_def upload_stringToSign_def)
  moreover from bare [THEN conjunct2, THEN conjunct1]
  have "generateSignature (sample_platform empty_store) secretless_settings ''obsidian/abc.png''
       ''image/png'' \<lparr>now = 1546300800000, trace = []\<rparr>
     = Inl (Error ''DataError: HMAC key data must not be empty'')"
    by (simp add: secretless_fields sample_rejection)
  moreover from inst [THEN conjunct2, THEN conjunct2, THEN conjunct1, THEN mp, OF no_newline]
  have "split_str (CHR 0x0A)
       (''PUT'' @ nl @ '''' @ nl @ ''image/png'' @ nl @ ''Tue, 01 Jan 2019 00:00:00 GMT'' @ nl
          @ ''/'' @ ''mybucket'' @ ''/'' @ ''obsidian/abc.png'')
     = [''PUT'', '''', ''image/png'', ''Tue, 01 Jan 2019 00:00:00 GMT'',
        ''/mybucket/obsidian/abc.png'']"
    by (simp add: sample_fields)
  ultimately show ?thesis by (simp add: png_run)
qed

text \<open>
  C1. The key and the compression settings. The key is the prefix, the hexadecimal digest of
  the bytes given to the upload, which are the bytes before any compression, a dot and the
  suffix of the file name. It is the same whatever the three compression settings are and
  whatever the compressor and the remote side do. So two uploads of the same bytes under the
  same name that both return an address return the same address, also when the compression
  settings, the compressor, the remote side, the options and the time differ.
\<close>

theorem key_ignores_compression:
  "ossPath_of plat (s\<lparr>enableCompression := e, maxSizeMB := m, maxWidthOrHeight := d\<rparr>)
       content fileName
     = ossPath_of plat s content fileName
   \<and> ossPath_of (plat\<lparr>imageCompression := c, respond := r\<rparr>) s content fileName
     = ossPath_of plat s content fileName
   \<and> ossPath_of plat s content fileName
     = path s @ concat (map hex2 (subtle_digest plat SHA_256 content)) @ ''.''
         @ fileExt_of fileName
   \<and> (fst (uploadWithCompression plat s content fileName options w) = Inr u
      \<and> fst (uploadWithCompression (plat\<lparr>imageCompression := c, respond := r\<rparr>)
               (s\<lparr>enableCompression := e, maxSizeMB := m, maxWidthOrHeight := d\<rparr>)
               content fileName options' w') = Inr u'
      \<longrightarrow> u = u')"
proof (intro conjI impI)
  assume a: "fst (uploadWithCompression plat s content fileName options w) = Inr u
      \<and> fst (uploadWithCompression (plat\<lparr>imageCompression := c, respond := r\<rparr>)
               (s\<lparr>enableCompression := e, maxSizeMB := m, maxWidthOrHeight := d\<rparr>)
               content fileName options' w') = Inr u'"
  from a have "u = baseUrl_of s @ ''/'' @ ossPath_of plat s content fileName"
    by (blast dest: upload_success_url)
  moreover from a
  have "u' = baseUrl_of (s\<lparr>enableCompression := e, maxSizeMB := m, maxWidthOrHeight := d\<rparr>)
               @ ''/'' @ ossPath_of (plat\<lparr>imageCompression := c, respond := r\<rparr>)
                          (s\<lparr>enableCompression := e, maxSizeMB := m, maxWidthOrHeight := d\<rparr>)
                          content fileName"
    by (blast dest: upload_success_url)
  ultimately show "u = u'"
    by (simp add: baseUrl_of_def ossPath_of_def calculateHash_def Let_def)
qed (simp_all add: ossPath_of_def calculateHash_def Let_def)

theorem key_ignores_compression_witness:
  "fst (uploadWithCompression (sample_platform empty_store) sample_settings [1, 2, 3] ''a.png''
          None epoch)
     = Inr ''https://mybucket.oss-cn-hangzhou.aliyuncs.com/obsidian/0000000000000000000000000000000000000000000000000000000000000000.png''
   \<and> fst (uploadWithCompression (sample_platform empty_store) uncompressed_settings [1, 2, 3]
            ''a.png'' None epoch)
     = Inr ''https://mybucket.oss-cn-hangzhou.aliyuncs.com/obsidian/0000000000000000000000000000000000000000000000000000000000000000.png''
   \<and> compressions_of (trace (snd (uploadWithCompression (sample_platform empty_store)
          sample_settings [1, 2, 3] ''a.png'' None epoch)))
       \<noteq> compressions_of (trace (snd (uploadWithCompression (sample_platform empty_store)
          uncompressed_settings [1, 2, 3] ''a.png'' None epoch)))"
proof -
  have u1: "fst (uploadWithCompression (sample_platform empty_store) sample_settings [1, 2, 3]
              ''a.png'' None epoch)
    = Inr ''https://mybucket.oss-cn-hangzhou.aliyuncs.com/obsidian/0000000000000000000000000000000000000000000000000000000000000000.png''"
    by (simp add: uploadWithCompression_def exist_check_wanted_def empty_store_probe
          sample_compress_step sample_fields generateSignature_eq ext_of_samples Let_def
          split_beta sample_key retry_first_success empty_store_put baseUrl_of_def)
  have c1: "compressions_of (trace (snd (uploadWithCompression (sample_platform empty_store)
          sample_settings [1, 2, 3] ''a.png'' None epoch))) \<noteq> []"
    by (simp add: uploadWithCompression_def exist_check_wanted_def empty_store_probe
          sample_compress_step sample_fields generateSignature_eq ext_of_samples Let_def
          split_beta sample_key retry_first_success empty_store_put epoch_def
          compressions_of_append)
  have unc: "uncompressed_settings
      = sample_settings\<lparr>enableCompression := False, maxSizeMB := 1, maxWidthOrHeight := 4000\<rparr>"
    by (simp add: uncompressed_settings_def)
  have uf: "\<not> enableCompression uncompressed_settings"
    "path uncompressed_settings = ''obsidian/''" "customDomain uncompressed_settings = []"
    "bucket uncompressed_settings = ''mybucket''"
    "accessKeySecret uncompressed_settings = ''secret''"
    "region uncompressed_settings = ''oss-cn-hangzhou''"
    by (simp_all add: uncompressed_settings_def sample_fields)
  have u2: "fst (uploadWithCompression (sample_platform empty_store) uncompressed_settings
                   [1, 2, 3] ''a.png'' None epoch) = Inr
      ''https://mybucket.oss-cn-hangzhou.aliyuncs.com/obsidian/0000000000000000000000000000000000000000000000000000000000000000.png''
    \<and> compressions_of (trace (snd (uploadWithCompression (sample_platform empty_store)
          uncompressed_settings [1, 2, 3] ''a.png'' None epoch))) = []"
    by (simp add: uploadWithCompression_def exist_check_wanted_def empty_store_probe
          compress_step_def uf generateSignature_eq ext_of_samples Let_def split_beta
          sample_key retry_first_success empty_store_put baseUrl_of_def epoch_def
          compressions_of_append)
  note inst = key_ignores_compression
    [where plat = "sample_platform empty_store" and s = sample_settings and e = False
       and m = 1 and d = 4000 and content = "[1, 2, 3]" and fileName = "''a.png''"
       and c = "imageCompression (sample_platform empty_store)" and r = empty_store
       and options = None and w = epoch and options' = None and w' = epoch]
  from u1 u2 c1 inst show ?thesis by simp
qed

text \<open>
  C2, on the code. \<open>uploadFile\<close> validates the settings and fails before anything else
  happens, but \<open>uploadWithCompression\<close>, the entry with the options that every caller
  uses, does not call \<open>validateSettings\<close>. With the access key id empty and a remote side
  that refuses the request, it sends the HEAD probe and fails with the error of the probe,
  while \<open>validateSettings\<close> rejects the same settings and \<open>uploadFile\<close> stops on them
  with the world untouched.
\<close>

theorem upload_with_empty_key_id_probes:
  "validateSettings keyless_settings = Inl (Error (msg_missing @ '' Access Key ID''))
   \<and> uploadFile (sample_platform forbidding_store) keyless_settings [1, 2, 3] ''a.png'' None
         epoch
       = (Inl (Error (msg_missing @ '' Access Key ID'')), epoch)
   \<and> fst (uploadWithCompression (sample_platform forbidding_store) keyless_settings [1, 2, 3]
            ''a.png'' None epoch)
       = Inl (Error ''Request failed, status 403'')
   \<and> map http_method
         (requests_of (trace (snd (uploadWithCompression (sample_platform forbidding_store)
            keyless_settings [1, 2, 3] ''a.png'' None epoch))))
       = [''HEAD'']"
proof (intro conjI)
  show v: "validateSettings keyless_settings = Inl (Error (msg_missing @ '' Access Key ID''))"
    by (simp add: validateSettings_def keyless_fields)
  show "uploadFile (sample_platform forbidding_store) keyless_settings [1, 2, 3] ''a.png'' None
         epoch
       = (Inl (Error (msg_missing @ '' Access Key ID'')), epoch)"
    by (simp add: uploadFile_def v)
  show "fst (uploadWithCompression (sample_platform forbidding_store) keyless_settings [1, 2, 3]
            ''a.png'' None epoch)
       = Inl (Error ''Request failed, status 403'')"
    by (simp add: uploadWithCompression_def exist_check_wanted_def forbidding_store_probe keyless_fields
          Let_def)
  show "map http_method
         (requests_of (trace (snd (uploadWithCompression (sample_platform forbidding_store)
            keyless_settings [1, 2, 3] ''a.png'' None epoch))))
       = [''HEAD'']"
    by (simp add: uploadWithCompression_def exist_check_wanted_def forbidding_store_probe keyless_fields
          Let_def epoch_def probe_of_def)
qed

text \<open>
  C8, on the code. The authorization of the PUT is computed once, before the first attempt;
  the closure that is retried reads the clock again for its Date header only. On a store
  that answers every PUT with a server error, an upload started at time 0 sends four PUT
  requests whose Date headers are the times 0, 1, 3 and 7 seconds. All four carry the one
  authorization that signs the timestamp of second 0, the value \<open>generateSignature\<close>
  gives at time 0; the value it gives at second 1, the time of the second attempt, signs
  another string and is another text. The HMAC of the sample platform is the key followed
  by the data, so every signature shows the timestamp it signs.
\<close>

theorem retry_reuses_signature:
  "map (header ''Date'')
     (put_requests (trace (snd (uploadWithCompression (sample_platform broken_store)
        sample_settings [1, 2, 3] ''a.png'' None epoch))))
   = [Some ''Thu, 01 Jan 1970 00:00:00 GMT'', Some ''Thu, 01 Jan 1970 00:00:01 GMT'',
      Some ''Thu, 01 Jan 1970 00:00:03 GMT'', Some ''Thu, 01 Jan 1970 00:00:07 GMT'']
   \<and> map (header ''Authorization'')
     (put_requests (trace (snd (uploadWithCompression (sample_platform broken_store)
        sample_settings [1, 2, 3] ''a.png'' None epoch))))
   = [Some ''OSS id:c2VjcmV0UFVUCgppbWFnZS9wbmcKVGh1LCAwMSBKYW4gMTk3MCAwMDowMDowMCBHTVQKL215YnVja2V0L29ic2lkaWFuLzAwMDAwMDAwMDAwMDAwMDAwMDAwMDAwMDAwMDAwMDAwMDAwMDAwMDAwMDAwMDAwMDAwMDAwMDAwMDAwMDAwMDAucG5n'',
      Some ''OSS id:c2VjcmV0UFVUCgppbWFnZS9wbmcKVGh1LCAwMSBKYW4gMTk3MCAwMDowMDowMCBHTVQKL215YnVja2V0L29ic2lkaWFuLzAwMDAwMDAwMDAwMDAwMDAwMDAwMDAwMDAwMDAwMDAwMDAwMDAwMDAwMDAwMDAwMDAwMDAwMDAwMDAwMDAwMDAucG5n'',
      Some ''OSS id:c2VjcmV0UFVUCgppbWFnZS9wbmcKVGh1LCAwMSBKYW4gMTk3MCAwMDowMDowMCBHTVQKL215YnVja2V0L29ic2lkaWFuLzAwMDAwMDAwMDAwMDAwMDAwMDAwMDAwMDAwMDAwMDAwMDAwMDAwMDAwMDAwMDAwMDAwMDAwMDAwMDAwMDAwMDAucG5n'',
      Some ''OSS id:c2VjcmV0UFVUCgppbWFnZS9wbmcKVGh1LCAwMSBKYW4gMTk3MCAwMDowMDowMCBHTVQKL215YnVja2V0L29ic2lkaWFuLzAwMDAwMDAwMDAwMDAwMDAwMDAwMDAwMDAwMDAwMDAwMDAwMDAwMDAwMDAwMDAwMDAwMDAwMDAwMDAwMDAwMDAucG5n'']
   \<and> generateSignature (sample_platform broken_store) sample_settings
       ''obsidian/0000000000000000000000000000000000000000000000000000000000000000.png'' ''image/png'' \<lparr>now = 0, trace = []\<rparr>
     = Inr (''OSS id:c2VjcmV0UFVUCgppbWFnZS9wbmcKVGh1LCAwMSBKYW4gMTk3MCAwMDowMDowMCBHTVQKL215YnVja2V0L29ic2lkaWFuLzAwMDAwMDAwMDAwMDAwMDAwMDAwMDAwMDAwMDAwMDAwMDAwMDAwMDAwMDAwMDAwMDAwMDAwMDAwMDAwMDAwMDAucG5n'',
            ''https://mybucket.oss-cn-hangzhou.aliyuncs.com/obsidian/0000000000000000000000000000000000000000000000000000000000000000.png'')
   \<and> generateSignature (sample_platform broken_store) sample_settings
       ''obsidian/0000000000000000000000000000000000000000000000000000000000000000.png'' ''image/png'' \<lparr>now = 1000, trace = []\<rparr>
     = Inr (''OSS id:c2VjcmV0UFVUCgppbWFnZS9wbmcKVGh1LCAwMSBKYW4gMTk3MCAwMDowMDowMSBHTVQKL215YnVja2V0L29ic2lkaWFuLzAwMDAwMDAwMDAwMDAwMDAwMDAwMDAwMDAwMDAwMDAwMDAwMDAwMDAwMDAwMDAwMDAwMDAwMDAwMDAwMDAwMDAucG5n'',
            ''https://mybucket.oss-cn-hangzhou.aliyuncs.com/obsidian/0000000000000000000000000000000000000000000000000000000000000000.png'')
   \<and> generateSignature (sample_platform broken_store) sample_settings
       ''obsidian/0000000000000000000000000000000000000000000000000000000000000000.png'' ''image/png'' \<lparr>now = 1000, trace = []\<rparr>
     \<noteq> generateSignature (sample_platform broken_store) sample_settings
         ''obsidian/0000000000000000000000000000000000000000000000000000000000000000.png'' ''image/png'' \<lparr>now = 0, trace = []\<rparr>
   \<and> fst (uploadWithCompression (sample_platform broken_store) sample_settings [1, 2, 3]
            ''a.png'' None epoch)
     = Inl (Error ''Request failed, status 500'')"
proof -
  have run: "uploadWithCompression (sample_platform broken_store) sample_settings [1, 2, 3]
               ''a.png'' None epoch
    = (Inl (Error ''Request failed, status 500''),
       snd (retryOperation
              (put_operation (sample_platform broken_store)
                 ''https://mybucket.oss-cn-hangzhou.aliyuncs.com/obsidian/0000000000000000000000000000000000000000000000000000000000000000.png''
                 ''OSS id:c2VjcmV0UFVUCgppbWFnZS9wbmcKVGh1LCAwMSBKYW4gMTk3MCAwMDowMDowMCBHTVQKL215YnVja2V0L29ic2lkaWFuLzAwMDAwMDAwMDAwMDAwMDAwMDAwMDAwMDAwMDAwMDAwMDAwMDAwMDAwMDAwMDAwMDAwMDAwMDAwMDAwMDAwMDAucG5n''
                 ''image/png'' [1, 2, 3])
              0
              \<lparr>now = 0,
               trace = [Request (probe_of (sample_platform broken_store) sample_settings
                          ''obsidian/0000000000000000000000000000000000000000000000000000000000000000.png''
                          epoch),
                        Compression [1, 2, 3] ''a.png'' ''image/png''
                          \<lparr>opt_maxSizeMB = 3 / 10, opt_maxWidthOrHeight = 1280,
                           useWebWorker = True, opt_onProgress = None\<rparr>]\<rparr>))"
    by (simp add: uploadWithCompression_def exist_check_wanted_def broken_store_probe
          sample_compress_step sample_fields generateSignature_eq ext_of_samples Let_def
          split_beta sample_key put_retry_all_fail [OF broken_store_put] epoch_def utc_samples
          sample_put_signature)
  have g0: "generateSignature (sample_platform broken_store) sample_settings
       ''obsidian/0000000000000000000000000000000000000000000000000000000000000000.png'' ''image/png'' \<lparr>now = 0, trace = []\<rparr>
     = Inr (''OSS id:c2VjcmV0UFVUCgppbWFnZS9wbmcKVGh1LCAwMSBKYW4gMTk3MCAwMDowMDowMCBHTVQKL215YnVja2V0L29ic2lkaWFuLzAwMDAwMDAwMDAwMDAwMDAwMDAwMDAwMDAwMDAwMDAwMDAwMDAwMDAwMDAwMDAwMDAwMDAwMDAwMDAwMDAwMDAucG5n'',
            ''https://mybucket.oss-cn-hangzhou.aliyuncs.com/obsidian/0000000000000000000000000000000000000000000000000000000000000000.png'')"
    by (simp add: generateSignature_eq sample_fields utc_samples sample_put_signature)
  have g1: "generateSignature (sample_platform broken_store) sample_settings
       ''obsidian/0000000000000000000000000000000000000000000000000000000000000000.png'' ''image/png'' \<lparr>now = 1000, trace = []\<rparr>
     = Inr (''OSS id:c2VjcmV0UFVUCgppbWFnZS9wbmcKVGh1LCAwMSBKYW4gMTk3MCAwMDowMDowMSBHTVQKL215YnVja2V0L29ic2lkaWFuLzAwMDAwMDAwMDAwMDAwMDAwMDAwMDAwMDAwMDAwMDAwMDAwMDAwMDAwMDAwMDAwMDAwMDAwMDAwMDAwMDAwMDAucG5n'',
            ''https://mybucket.oss-cn-hangzhou.aliyuncs.com/obsidian/0000000000000000000000000000000000000000000000000000000000000000.png'')"
    by (simp add: generateSignature_eq sample_fields utc_samples sample_put_signature)
  have differ: "generateSignature (sample_platform broken_store) sample_settings
       ''obsidian/0000000000000000000000000000000000000000000000000000000000000000.png'' ''image/png'' \<lparr>now = 1000, trace = []\<rparr>
     \<noteq> generateSignature (sample_platform broken_store) sample_settings
         ''obsidian/0000000000000000000000000000000000000000000000000000000000000000.png'' ''image/png'' \<lparr>now = 0, trace = []\<rparr>"
    unfolding g0 g1 by simp
  have headers: "map (header ''Date'')
     (put_requests (trace (snd (uploadWithCompression (sample_platform broken_store)
        sample_settings [1, 2, 3] ''a.png'' None epoch))))
   = [Some ''Thu, 01 Jan 1970 00:00:00 GMT'', Some ''Thu, 01 Jan 1970 00:00:01 GMT'',
      Some ''Thu, 01 Jan 1970 00:00:03 GMT'', Some ''Thu, 01 Jan 1970 00:00:07 GMT'']
   \<and> map (header ''Authorization'')
     (put_requests (trace (snd (uploadWithCompression (sample_platform broken_store)
        sample_settings [1, 2, 3] ''a.png'' None epoch))))
   = [Some ''OSS id:c2VjcmV0UFVUCgppbWFnZS9wbmcKVGh1LCAwMSBKYW4gMTk3MCAwMDowMDowMCBHTVQKL215YnVja2V0L29ic2lkaWFuLzAwMDAwMDAwMDAwMDAwMDAwMDAwMDAwMDAwMDAwMDAwMDAwMDAwMDAwMDAwMDAwMDAwMDAwMDAwMDAwMDAwMDAucG5n'',
      Some ''OSS id:c2VjcmV0UFVUCgppbWFnZS9wbmcKVGh1LCAwMSBKYW4gMTk3MCAwMDowMDowMCBHTVQKL215YnVja2V0L29ic2lkaWFuLzAwMDAwMDAwMDAwMDAwMDAwMDAwMDAwMDAwMDAwMDAwMDAwMDAwMDAwMDAwMDAwMDAwMDAwMDAwMDAwMDAwMDAucG5n'',
      Some ''OSS id:c2VjcmV0UFVUCgppbWFnZS9wbmcKVGh1LCAwMSBKYW4gMTk3MCAwMDowMDowMCBHTVQKL215YnVja2V0L29ic2lkaWFuLzAwMDAwMDAwMDAwMDAwMDAwMDAwMDAwMDAwMDAwMDAwMDAwMDAwMDAwMDAwMDAwMDAwMDAwMDAwMDAwMDAwMDAucG5n'',
      Some ''OSS id:c2VjcmV0UFVUCgppbWFnZS9wbmcKVGh1LCAwMSBKYW4gMTk3MCAwMDowMDowMCBHTVQKL215YnVja2V0L29ic2lkaWFuLzAwMDAwMDAwMDAwMDAwMDAwMDAwMDAwMDAwMDAwMDAwMDAwMDAwMDAwMDAwMDAwMDAwMDAwMDAwMDAwMDAwMDAucG5n'']
   \<and> fst (uploadWithCompression (sample_platform broken_store) sample_settings [1, 2, 3]
            ''a.png'' None epoch)
     = Inl (Error ''Request failed, status 500'')"
    unfolding run
    by (simp add: put_retry_all_fail [OF broken_store_put] put_requests_def probe_of_def
          header_def utc_samples)
  from headers g0 g1 differ show ?thesis by blast
qed

end
